theory Spec2Isabelle
  imports Complex_Main "HOL-Library.Word"
begin

section \<open>Data model of builder/digitalocean/config.go\<close>

text \<open>
  Go errors. \<open>Err s\<close> is an error whose \<open>Error()\<close> text is \<open>s\<close> (\<open>errors.New\<close>,
  \<open>fmt.Errorf\<close>); \<open>MultiError es\<close> is the SDK's \<open>*packersdk.MultiError\<close> with its
  \<open>Errors\<close> slice.
\<close>

datatype error = Err string | MultiError (Errors: "error list")

text \<open>
  \<open>time.Duration\<close> is an \<open>int64\<close> count of nanoseconds; \<open>sint\<close> reads it.
\<close>

type_synonym Duration = "64 word"

definition Second :: Duration where
  "Second = 1000000000"

definition Minute :: Duration where
  "Minute = 60 * Second"

text \<open>
  A \<open>float64\<close>. The file stores the literals \<open>1.0\<close> and \<open>30.0\<close> and whatever
  \<open>strconv.ParseFloat\<close> returns, and performs no floating-point arithmetic, so a finite
  value is represented by the real number it denotes.
\<close>

datatype float64 = F64 real | F64_NegZero | F64_Inf bool | F64_NaN

text \<open>The fields of \<open>common.PackerConfig\<close> and \<open>communicator.Config\<close> that the file reads.\<close>

record PackerConfig =
  PackerBuildName :: string
  PackerDebug :: bool

record communicator_Config =
  SSHPrivateKeyFile :: string

text \<open>
  \<open>type Config struct\<close>. A pointer field (\<open>*int\<close>, \<open>*float64\<close>, \<open>*bool\<close>) is an
  option, \<open>None\<close> being \<open>nil\<close>; \<open>Tags\<close> is an option as well because the code tests the
  slice against \<open>nil\<close>. \<open>SnapshotRegions\<close> is only measured with \<open>len\<close>, so \<open>nil\<close> and the
  empty slice are both \<open>[]\<close>. The field \<open>Image\<close> is named \<open>Image_cfg\<close> here.
\<close>

record Config =
  PackerConfig :: PackerConfig
  Comm :: communicator_Config
  APIToken :: string
  APIURL :: string
  HTTPRetryMax :: "int option"
  HTTPRetryWaitMax :: "float64 option"
  HTTPRetryWaitMin :: "float64 option"
  Region :: string
  Size :: string
  Image_cfg :: string
  PrivateNetworking :: bool
  Monitoring :: bool
  DropletAgent :: "bool option"
  IPv6 :: bool
  SnapshotName :: string
  SnapshotRegions :: "string list"
  WaitSnapshotTransfer :: "bool option"
  TransferTimeout :: Duration
  StateTimeout :: Duration
  SnapshotTimeout :: Duration
  DropletName :: string
  UserData :: string
  UserDataFile :: string
  Tags :: "string list option"
  VPCUUID :: string
  ConnectWithPrivateIP :: bool
  SSHKeyID :: int
  SkipKeygen :: bool

subsection \<open>The API client and its options\<close>

record RetryConfig =
  RetryMax :: int
  RetryWaitMin :: "float64 option"
  RetryWaitMax :: "float64 option"

datatype ClientOpt =
    SetUserAgent string
  | SetBaseURL string
  | WithRetryAndBackoffs RetryConfig

text \<open>The client \<open>godo.New\<close> builds from the token source and the options.\<close>

datatype client = Client (AccessToken: string) (client_opts: "ClientOpt list")

record ListOptions =
  Page :: nat
  PerPage :: nat

record godo_Region =
  Slug :: string

subsection \<open>Steps, the state bag and the artifact\<close>

text \<open>
  The steps of the list literal in \<open>Builder.Run\<close>. \<open>nullStep\<close> is what \<open>multistep.If\<close>
  puts in the place of a step whose condition is false.
\<close>

datatype step =
    nullStep
  | StepSSHKeyGen
  | StepDumpSSHKey (Path: string)
  | stepCreateSSHKey
  | stepCreateDroplet
  | stepDropletInfo
  | StepConnect
  | StepProvision
  | StepCleanupTempKeys
  | stepShutdown
  | stepPowerOff
  | stepSnapshot (snapshotTimeout: Duration) (transferTimeout: Duration)
      (waitForSnapshotTransfer: bool)

definition multistep_If :: "bool \<Rightarrow> step \<Rightarrow> step" where
  "multistep_If on st = (if on then st else nullStep)"

text \<open>
  The values of the state bag (\<open>map[string]interface{}\<close>), tagged with their dynamic
  type; \<open>VNil\<close> is the nil interface, which \<open>state.Get\<close> returns for a missing key.
\<close>

datatype val =
    VNil
  | VConfig Config
  | VClient client
  | VHook
  | VUi
  | VString string
  | VInt int
  | VStrings "string list"
  | VBool bool
  | VError error

type_synonym state_bag = "string \<rightharpoonup> val"

definition Put :: "state_bag \<Rightarrow> string \<Rightarrow> val \<Rightarrow> state_bag" where
  "Put state k v = state(k \<mapsto> v)"

definition Get :: "state_bag \<Rightarrow> string \<Rightarrow> val" where
  "Get state k = (case state k of None \<Rightarrow> VNil | Some v \<Rightarrow> v)"

definition GetOk :: "state_bag \<Rightarrow> string \<Rightarrow> val option" where
  "GetOk state k = state k"

text \<open>The type assertions \<open>v.(error)\<close>, \<open>v.(string)\<close>, \<open>v.(int)\<close>, \<open>v.([]string)\<close>:
  \<open>None\<close> is the panic of a failed assertion.\<close>

fun as_error :: "val \<Rightarrow> error option" where
  "as_error (VError e) = Some e"
| "as_error _ = None"

fun as_string :: "val \<Rightarrow> string option" where
  "as_string (VString s) = Some s"
| "as_string _ = None"

fun as_int :: "val \<Rightarrow> int option" where
  "as_int (VInt i) = Some i"
| "as_int _ = None"

fun as_strings :: "val \<Rightarrow> string list option" where
  "as_strings (VStrings xs) = Some xs"
| "as_strings _ = None"

record Artifact =
  SnapshotName_a :: string
  SnapshotId :: int
  RegionNames :: "string list"
  Client_a :: client
  StateData :: "string \<rightharpoonup> val"

text \<open>
  What a call of \<open>Builder.Run\<close> gives back: the pair \<open>(artifact, error)\<close> it returns,
  each possibly \<open>nil\<close>, or a panic (a nil pointer dereference or a failed type assertion).
\<close>

datatype outcome = Return "Artifact option" "error option" | Panic

section \<open>Builder.Run\<close>

text \<open>
  The collaborators of \<open>Builder.Run\<close> outside this file. An error of a library call
  that the code only formats with \<open>%s\<close> is given by its text.
  \<^item> \<open>useragent_String\<close>: the user agent string;
  \<^item> \<open>url_Parse u\<close>: the error of \<open>url.Parse(u)\<close>, if any;
  \<^item> \<open>godo_New token opts\<close>: the error of \<open>godo.New\<close>, if any;
  \<^item> \<open>Regions_List client opt\<close>: the answer of \<open>client.Regions.List\<close>;
  \<^item> \<open>runner_Run conf steps state\<close>: the state bag as \<open>commonsteps.NewRunner(steps,
    conf, ui).Run(ctx, state)\<close> leaves it.
\<close>

record run_world =
  useragent_String :: string
  url_Parse :: "string \<Rightarrow> string option"
  godo_New :: "string \<Rightarrow> ClientOpt list \<Rightarrow> string option"
  Regions_List :: "client \<Rightarrow> ListOptions \<Rightarrow> string + godo_Region list"
  runner_Run :: "PackerConfig \<Rightarrow> step list \<Rightarrow> state_bag \<Rightarrow> state_bag"

text \<open>The calls \<open>Builder.Run\<close> makes, in the order it makes them.\<close>

datatype event =
    EvGodoNew "ClientOpt list"
  | EvRegionsList ListOptions
  | EvNewStateBag
  | EvRunnerRun "step list"

record run_result =
  events :: "event list"
  final_state :: "state_bag option"
  outcome :: outcome

definition stop :: "event list \<Rightarrow> outcome \<Rightarrow> run_result" where
  "stop evs oc = \<lparr>events = evs, final_state = None, outcome = oc\<rparr>"

text \<open>Lines 344--361: the client options. \<open>Inl\<close> is the outcome of an early exit.\<close>

definition client_options :: "run_world \<Rightarrow> Config \<Rightarrow> outcome + ClientOpt list" where
  "client_options w c =
    (let opts = [SetUserAgent (useragent_String w)] in
     case (if APIURL c \<noteq> '''' then
             (case url_Parse w (APIURL c) of
                Some err \<Rightarrow>
                  Inl (Return None (Some (Err (''DigitalOcean: Invalid API URL, '' @ err @ ''.''))))
              | None \<Rightarrow> Inr (opts @ [SetBaseURL (APIURL c)]))
           else Inr opts) of
       Inl oc \<Rightarrow> Inl oc
     | Inr opts \<Rightarrow>
         (case HTTPRetryMax c of
            None \<Rightarrow> Inl Panic
          | Some n \<Rightarrow>
              if n > 0 then
                Inr (opts @ [WithRetryAndBackoffs
                  \<lparr>RetryMax = n, RetryWaitMin = HTTPRetryWaitMin c,
                   RetryWaitMax = HTTPRetryWaitMax c\<rparr>])
              else Inr opts))"

text \<open>Lines 380--389: the first configured region that is not a valid slug.\<close>

fun first_invalid :: "string set \<Rightarrow> string list \<Rightarrow> string option" where
  "first_invalid validRegions [] = None"
| "first_invalid validRegions (region # rest) =
     (if region \<in> validRegions then first_invalid validRegions rest else Some region)"

definition validate_regions :: "godo_Region list \<Rightarrow> Config \<Rightarrow> error option" where
  "validate_regions regions c =
    (let validRegions = set (map Slug regions) in
     case first_invalid validRegions (SnapshotRegions c @ [Region c]) of
       Some region \<Rightarrow> Some (Err (''DigitalOcean: Invalid region, '' @ region))
     | None \<Rightarrow> None)"

text \<open>Line 400.\<close>

definition genTempKeyPair :: "Config \<Rightarrow> bool" where
  "genTempKeyPair c =
    (\<not> SkipKeygen c \<and> (SSHKeyID c = 0 \<or> SSHPrivateKeyFile (Comm c) = ''''))"

text \<open>
  Lines 403--437: the step list. The last element dereferences
  \<open>WaitSnapshotTransfer\<close>; \<open>None\<close> is the panic on a nil pointer.
\<close>

definition build_steps :: "Config \<Rightarrow> step list option" where
  "build_steps c =
    (case WaitSnapshotTransfer c of
       None \<Rightarrow> None
     | Some wait \<Rightarrow> Some
        [ multistep_If (genTempKeyPair c) StepSSHKeyGen,
          multistep_If (PackerDebug (PackerConfig c) \<and> SSHPrivateKeyFile (Comm c) = '''')
            (StepDumpSSHKey (''do_'' @ PackerBuildName (PackerConfig c) @ ''.pem'')),
          multistep_If (genTempKeyPair c) stepCreateSSHKey,
          stepCreateDroplet,
          stepDropletInfo,
          StepConnect,
          StepProvision,
          multistep_If (genTempKeyPair c) StepCleanupTempKeys,
          stepShutdown,
          stepPowerOff,
          stepSnapshot (SnapshotTimeout c) (TransferTimeout c) wait ])"

text \<open>Lines 443--467: what is returned once the runner has finished.\<close>

definition finish :: "client \<Rightarrow> state_bag \<Rightarrow> outcome" where
  "finish cl state =
    (case GetOk state ''error'' of
       Some rawErr \<Rightarrow>
         (case as_error rawErr of None \<Rightarrow> Panic | Some e \<Rightarrow> Return None (Some e))
     | None \<Rightarrow>
         (case GetOk state ''snapshot_name'' of
            None \<Rightarrow> Return None None
          | Some _ \<Rightarrow>
              (case as_string (Get state ''snapshot_name'') of
                 None \<Rightarrow> Panic
               | Some name \<Rightarrow>
                   (case as_int (Get state ''snapshot_image_id'') of
                      None \<Rightarrow> Panic
                    | Some i \<Rightarrow>
                        (case as_strings (Get state ''regions'') of
                           None \<Rightarrow> Panic
                         | Some rs \<Rightarrow>
                             Return (Some
                               \<lparr>SnapshotName_a = name, SnapshotId = i, RegionNames = rs,
                                Client_a = cl,
                                StateData =
                                  [''generated_data'' \<mapsto> Get state ''generated_data'',
                                   ''source_image_id'' \<mapsto> Get state ''source_image_id'',
                                   ''droplet_size'' \<mapsto> Get state ''droplet_size'',
                                   ''droplet_name'' \<mapsto> Get state ''droplet_name'',
                                   ''build_region'' \<mapsto> Get state ''build_region'']\<rparr>)
                               None)))))"

text \<open>Lines 392--467: the state bag, the steps, the runner, the result.\<close>

definition run_pipeline :: "run_world \<Rightarrow> Config \<Rightarrow> client \<Rightarrow> event list \<Rightarrow> run_result" where
  "run_pipeline w c cl evs =
    (let state = Put (Put (Put (Put Map.empty ''config'' (VConfig c)) ''client'' (VClient cl))
                   ''hook'' VHook) ''ui'' VUi;
         evs1 = evs @ [EvNewStateBag] in
     case build_steps c of
       None \<Rightarrow> stop evs1 Panic
     | Some steps \<Rightarrow>
         (let state' = runner_Run w (PackerConfig c) steps state in
          \<lparr>events = evs1 @ [EvRunnerRun steps], final_state = Some state',
           outcome = finish cl state'\<rparr>))"

text \<open>\<open>func (b *Builder) Run\<close>, on the configuration \<open>b.config\<close>.\<close>

definition Run :: "run_world \<Rightarrow> Config \<Rightarrow> run_result" where
  "Run w c =
    (case client_options w c of
       Inl oc \<Rightarrow> stop [] oc
     | Inr opts \<Rightarrow>
         (let evs = [EvGodoNew opts] in
          case godo_New w (APIToken c) opts of
            Some err \<Rightarrow>
              stop evs (Return None (Some (Err (''DigitalOcean: could not create client, '' @ err))))
          | None \<Rightarrow>
              (let cl = Client (APIToken c) opts in
               if length (SnapshotRegions c) > 0 then
                 (let opt = \<lparr>Page = 1, PerPage = 200\<rparr>;
                      evs2 = evs @ [EvRegionsList opt] in
                  case Regions_List w cl opt of
                    Inl err \<Rightarrow>
                      stop evs2 (Return None (Some (Err (''DigitalOcean: Unable to get regions, '' @ err))))
                  | Inr regions \<Rightarrow>
                      (case validate_regions regions c of
                         Some e \<Rightarrow> stop evs2 (Return None (Some e))
                       | None \<Rightarrow> run_pipeline w c cl evs2))
               else run_pipeline w c cl evs)))"

section \<open>Config.Prepare\<close>

text \<open>
  The collaborators of \<open>Config.Prepare\<close> outside this file:
  \<^item> \<open>Decode_err\<close>: the error of \<open>config.Decode\<close>, if any; the configuration handed to
    the model is the receiver as \<open>config.Decode\<close> has filled it;
  \<^item> \<open>Getenv\<close>: \<open>os.Getenv\<close> (the empty string for an unset variable);
  \<^item> \<open>Atoi\<close>, \<open>ParseFloat\<close>: \<open>strconv.Atoi\<close> and \<open>strconv.ParseFloat(_, 64)\<close>;
  \<^item> \<open>Render_default\<close>: \<open>interpolate.Render("packer-{{timestamp}}", nil)\<close>;
  \<^item> \<open>TimeOrderedUUID\<close>: \<open>uuid.TimeOrderedUUID()\<close>;
  \<^item> \<open>Comm_Prepare\<close>: \<open>c.Comm.Prepare\<close>, which may update the communicator
    configuration and returns a slice of errors;
  \<^item> \<open>Stat_ok p\<close>: \<open>os.Stat(p)\<close> returns no error.
\<close>

record prepare_world =
  Decode_err :: "error option"
  Getenv :: "string \<Rightarrow> string"
  Atoi :: "string \<Rightarrow> error + int"
  ParseFloat :: "string \<Rightarrow> error + float64"
  Render_default :: "error + string"
  TimeOrderedUUID :: string
  Comm_Prepare :: "communicator_Config \<Rightarrow> communicator_Config \<times> error list"
  Stat_ok :: "string \<Rightarrow> bool"

text \<open>
  \<open>packersdk.MultiErrorAppend\<close>: a nil or \<open>*MultiError\<close> first argument is extended, the
  \<open>Errors\<close> of a \<open>*MultiError\<close> among the new errors being spliced in; any other error
  becomes the head of a new \<open>MultiError\<close>.
\<close>

fun splice :: "error list \<Rightarrow> error list" where
  "splice [] = []"
| "splice (MultiError es # rest) = es @ splice rest"
| "splice (Err s # rest) = Err s # splice rest"

fun MultiErrorAppend :: "error option \<Rightarrow> error list \<Rightarrow> error" where
  "MultiErrorAppend None errs = MultiError (splice errs)"
| "MultiErrorAppend (Some (MultiError es)) errs = MultiError (es @ splice errs)"
| "MultiErrorAppend (Some (Err s)) errs = MultiError (Err s # errs)"

text \<open>
  Inside \<open>Config.Prepare\<close> the accumulator \<open>errs\<close> is a \<open>*MultiError\<close>: \<open>None\<close> is the nil
  pointer and \<open>Some es\<close> a \<open>MultiError\<close> whose \<open>Errors\<close> are \<open>es\<close>.
\<close>

definition add_errs :: "error list option \<Rightarrow> error list \<Rightarrow> error list option" where
  "add_errs errs new = Some (Errors (MultiErrorAppend (map_option MultiError errs) new))"

text \<open>How \<open>Config.Prepare\<close> stops before its validations: an early \<open>return nil, err\<close>
  or the \<open>panic(err)\<close> of line 198, with the receiver as it is at that point.\<close>

datatype prepare_stop = EarlyReturn Config error | Panicked Config error

text \<open>Lines 146--160.\<close>

definition deprecated_token_warning :: string where
  "deprecated_token_warning =
     ''The DIGITALOCEAN_API_TOKEN environment variable is deprecated '' @
     ''and will produce an error in future versions of the DigitalOcean Packer plugin. '' @
     ''Please use either DIGITALOCEAN_TOKEN or DIGITALOCEAN_ACCESS_TOKEN moving forward.''"

definition default_APIToken :: "prepare_world \<Rightarrow> Config \<Rightarrow> Config \<times> string list" where
  "default_APIToken w c =
    (if APIToken c = '''' then
       (let c1 = c\<lparr>APIToken := Getenv w ''DIGITALOCEAN_TOKEN''\<rparr>;
            c2 = (if APIToken c1 = ''''
                  then c1\<lparr>APIToken := Getenv w ''DIGITALOCEAN_ACCESS_TOKEN''\<rparr> else c1) in
        if APIToken c2 = '''' then
          (let c3 = c2\<lparr>APIToken := Getenv w ''DIGITALOCEAN_API_TOKEN''\<rparr> in
           if APIToken c3 \<noteq> '''' then (c3, [deprecated_token_warning]) else (c3, []))
        else (c2, []))
     else (c, []))"

text \<open>Lines 161--163.\<close>

definition default_APIURL :: "prepare_world \<Rightarrow> Config \<Rightarrow> Config" where
  "default_APIURL w c =
    (if APIURL c = '''' then c\<lparr>APIURL := Getenv w ''DIGITALOCEAN_API_URL''\<rparr> else c)"

text \<open>Lines 164--173, 174--183 and 184--193.\<close>

definition default_HTTPRetryMax :: "prepare_world \<Rightarrow> Config \<Rightarrow> prepare_stop + Config" where
  "default_HTTPRetryMax w c =
    (if HTTPRetryMax c = None then
       (let c1 = c\<lparr>HTTPRetryMax := Some 5\<rparr>;
            max = Getenv w ''DIGITALOCEAN_HTTP_RETRY_MAX'' in
        if max \<noteq> '''' then
          (case Atoi w max of
             Inl err \<Rightarrow> Inl (EarlyReturn c1 err)
           | Inr maxInt \<Rightarrow> Inr (c1\<lparr>HTTPRetryMax := Some maxInt\<rparr>))
        else Inr c1)
     else Inr c)"

definition default_HTTPRetryWaitMax :: "prepare_world \<Rightarrow> Config \<Rightarrow> prepare_stop + Config" where
  "default_HTTPRetryWaitMax w c =
    (if HTTPRetryWaitMax c = None then
       (let c1 = c\<lparr>HTTPRetryWaitMax := Some (F64 30)\<rparr>;
            waitMax = Getenv w ''DIGITALOCEAN_HTTP_RETRY_WAIT_MAX'' in
        if waitMax \<noteq> '''' then
          (case ParseFloat w waitMax of
             Inl err \<Rightarrow> Inl (EarlyReturn c1 err)
           | Inr waitMaxFloat \<Rightarrow> Inr (c1\<lparr>HTTPRetryWaitMax := Some waitMaxFloat\<rparr>))
        else Inr c1)
     else Inr c)"

definition default_HTTPRetryWaitMin :: "prepare_world \<Rightarrow> Config \<Rightarrow> prepare_stop + Config" where
  "default_HTTPRetryWaitMin w c =
    (if HTTPRetryWaitMin c = None then
       (let c1 = c\<lparr>HTTPRetryWaitMin := Some (F64 1)\<rparr>;
            waitMin = Getenv w ''DIGITALOCEAN_HTTP_RETRY_WAIT_MIN'' in
        if waitMin \<noteq> '''' then
          (case ParseFloat w waitMin of
             Inl err \<Rightarrow> Inl (EarlyReturn c1 err)
           | Inr waitMinFloat \<Rightarrow> Inr (c1\<lparr>HTTPRetryWaitMin := Some waitMinFloat\<rparr>))
        else Inr c1)
     else Inr c)"

text \<open>Lines 195--208.\<close>

definition default_names :: "prepare_world \<Rightarrow> Config \<Rightarrow> prepare_stop + Config" where
  "default_names w c =
    (case (if SnapshotName c = '''' then
             (case Render_default w of
                Inl err \<Rightarrow> Inl (Panicked c err)
              | Inr def \<Rightarrow> Inr (c\<lparr>SnapshotName := def\<rparr>))
           else Inr c) of
       Inl p \<Rightarrow> Inl p
     | Inr c1 \<Rightarrow>
         Inr (if DropletName c1 = ''''
              then c1\<lparr>DropletName := ''packer-'' @ TimeOrderedUUID w\<rparr> else c1))"

text \<open>Lines 210--227.\<close>

definition default_timeouts :: "Config \<Rightarrow> Config" where
  "default_timeouts c =
    (let c1 = (if StateTimeout c = 0 then c\<lparr>StateTimeout := 6 * Minute\<rparr> else c);
         c2 = (if SnapshotTimeout c1 = 0 then c1\<lparr>SnapshotTimeout := 60 * Minute\<rparr> else c1);
         c3 = (if TransferTimeout c2 = 0 then c2\<lparr>TransferTimeout := 30 * Minute\<rparr> else c2) in
     if WaitSnapshotTransfer c3 = None then c3\<lparr>WaitSnapshotTransfer := Some True\<rparr> else c3)"

text \<open>Lines 131--227: decoding and defaults, with the warnings collected so far.\<close>

definition Prepare_defaults ::
  "prepare_world \<Rightarrow> Config \<Rightarrow> prepare_stop + (Config \<times> string list)" where
  "Prepare_defaults w c =
    (case Decode_err w of
       Some err \<Rightarrow> Inl (EarlyReturn c err)
     | None \<Rightarrow>
        (let (c1, warns) = default_APIToken w c;
             c2 = default_APIURL w c1 in
         case default_HTTPRetryMax w c2 of
           Inl p \<Rightarrow> Inl p
         | Inr c3 \<Rightarrow>
            (case default_HTTPRetryWaitMax w c3 of
               Inl p \<Rightarrow> Inl p
             | Inr c4 \<Rightarrow>
                (case default_HTTPRetryWaitMin w c4 of
                   Inl p \<Rightarrow> Inl p
                 | Inr c5 \<Rightarrow>
                    (case default_names w c5 of
                       Inl p \<Rightarrow> Inl p
                     | Inr c6 \<Rightarrow> Inr (default_timeouts c6, warns))))))"

text \<open>
  Line 266: \<open>tagRe.MatchString\<close> for \<open>^[[:alnum:]:_-]{1,255}$\<close>, on the bytes of the
  tag. \<open>[[:alnum:]]\<close> is the ASCII class, and without the multi-line flag \<open>$\<close> is the end
  of the text.
\<close>

definition tag_char :: "char \<Rightarrow> bool" where
  "tag_char ch =
    (let n = (of_char ch :: nat) in
     (48 \<le> n \<and> n \<le> 57) \<or> (65 \<le> n \<and> n \<le> 90) \<or> (97 \<le> n \<and> n \<le> 122)
     \<or> ch = CHR '':'' \<or> ch = CHR ''_'' \<or> ch = CHR ''-'')"

definition tagRe_MatchString :: "string \<Rightarrow> bool" where
  "tagRe_MatchString t = (1 \<le> length t \<and> length t \<le> 255 \<and> list_all tag_char t)"

text \<open>Lines 268--272.\<close>

fun check_tags :: "error list option \<Rightarrow> string list \<Rightarrow> error list option" where
  "check_tags errs [] = errs"
| "check_tags errs (t # ts) =
     check_tags (if \<not> tagRe_MatchString t
                 then add_errs errs [Err (''invalid tag: '' @ t)] else errs) ts"

text \<open>Lines 229--286: the validations; the receiver and the accumulated errors.\<close>

definition Prepare_validate ::
  "prepare_world \<Rightarrow> Config \<Rightarrow> Config \<times> error list option" where
  "Prepare_validate w c =
    (let (comm, es) = Comm_Prepare w (Comm c);
         c = c\<lparr>Comm := comm\<rparr>;
         errs = (if length es > 0 then add_errs None es else None);
         errs = (if APIToken c = ''''
                 then add_errs errs [Err ''api_token for auth must be specified''] else errs);
         errs = (if Region c = '''' then add_errs errs [Err ''region is required''] else errs);
         errs = (if Size c = '''' then add_errs errs [Err ''size is required''] else errs);
         errs = (if Image_cfg c = '''' then add_errs errs [Err ''image is required''] else errs);
         errs = (if UserData c \<noteq> '''' \<and> UserDataFile c \<noteq> '''' then
                   add_errs errs [Err ''only one of user_data or user_data_file can be specified'']
                 else if UserDataFile c \<noteq> '''' then
                   (if \<not> Stat_ok w (UserDataFile c)
                    then add_errs errs [Err (''user_data_file not found: '' @ UserDataFile c)]
                    else errs)
                 else errs);
         c = (if Tags c = None then c\<lparr>Tags := Some []\<rparr> else c);
         errs = check_tags errs (case Tags c of None \<Rightarrow> [] | Some ts \<Rightarrow> ts);
         errs = (if VPCUUID c \<noteq> '''' then
                   (if \<not> PrivateNetworking c
                    then add_errs errs [Err ''private networking should be enabled to use vpc_uuid'']
                    else errs)
                 else errs);
         errs = (if ConnectWithPrivateIP c then
                   (if \<not> PrivateNetworking c
                    then add_errs errs
                      [Err ''private networking should be enabled to use connect_with_private_ip'']
                    else errs)
                 else errs)
     in (c, errs))"

text \<open>
  What a call of \<open>Prepare\<close> leaves: the receiver, what it returns (the warnings and the
  error, or a panic) and the process-wide \<open>packersdk.LogSecretFilter\<close>, a set of strings.
\<close>

datatype prepare_ret = PReturn "string list" "error option" | PPanic error

record prepare_result =
  cfg :: Config
  ret :: prepare_ret
  secrets :: "string set"

definition LogSecretFilter_Set :: "string set \<Rightarrow> string \<Rightarrow> string set" where
  "LogSecretFilter_Set flt s = insert s flt"

text \<open>\<open>func (c *Config) Prepare\<close>; \<open>flt\<close> is the secret filter when it is called.\<close>

definition Config_Prepare :: "prepare_world \<Rightarrow> string set \<Rightarrow> Config \<Rightarrow> prepare_result" where
  "Config_Prepare w flt c =
    (case Prepare_defaults w c of
       Inl (EarlyReturn c' err) \<Rightarrow> \<lparr>cfg = c', ret = PReturn [] (Some err), secrets = flt\<rparr>
     | Inl (Panicked c' err) \<Rightarrow> \<lparr>cfg = c', ret = PPanic err, secrets = flt\<rparr>
     | Inr (c1, warns) \<Rightarrow>
        (let (c2, errs) = Prepare_validate w c1 in
         if errs \<noteq> None \<and> length (the errs) > 0 then
           \<lparr>cfg = c2, ret = PReturn warns (Some (MultiError (the errs))), secrets = flt\<rparr>
         else
           \<lparr>cfg = c2, ret = PReturn warns None,
            secrets = LogSecretFilter_Set flt (APIToken c2)\<rparr>))"

section \<open>Builder.Prepare\<close>

text \<open>\<open>func (b *Builder) Prepare\<close>, on \<open>b.config\<close>; the generated-data slice it returns is
  always nil and is left out.\<close>

definition Builder_Prepare :: "prepare_world \<Rightarrow> string set \<Rightarrow> Config \<Rightarrow> prepare_result" where
  "Builder_Prepare w flt c =
    (let r = Config_Prepare w flt c in
     case ret r of
       PPanic err \<Rightarrow> r
     | PReturn warnings errs \<Rightarrow>
        (let errs = (if SSHKeyID (cfg r) \<noteq> 0 \<and> SSHPrivateKeyFile (Comm (cfg r)) = '''' then
                       Some (MultiErrorAppend errs
                         [Err ''Must specify a `ssh_private_key_file` when using `ssh_key_id`.''])
                     else errs) in
         if errs \<noteq> None then r\<lparr>ret := PReturn warnings errs\<rparr>
         else r\<lparr>ret := PReturn warnings None\<rparr>))"

section \<open>Recognisers and example inputs\<close>

text \<open>Recognisers of the region-list call, the runner call and the snapshot step.\<close>

fun is_EvRegionsList :: "event \<Rightarrow> bool" where
  "is_EvRegionsList (EvRegionsList opt) = True"
| "is_EvRegionsList _ = False"

fun is_EvRunnerRun :: "event \<Rightarrow> bool" where
  "is_EvRunnerRun (EvRunnerRun steps) = True"
| "is_EvRunnerRun _ = False"

fun is_stepSnapshot :: "step \<Rightarrow> bool" where
  "is_stepSnapshot (stepSnapshot st tt wait) = True"
| "is_stepSnapshot _ = False"

text \<open>A prepared configuration without snapshot regions; a world where every call succeeds and
  the runner leaves a snapshot in the state bag; one where the build is cancelled and the
  runner leaves only \<open>cancelled\<close>; one where a step fails and the runner leaves an \<open>error\<close>.\<close>

definition example_config :: Config where
  "example_config =
    \<lparr>PackerConfig = \<lparr>PackerBuildName = ''digitalocean'', PackerDebug = False\<rparr>,
     Comm = \<lparr>SSHPrivateKeyFile = ''''\<rparr>,
     APIToken = ''dop_v1_token'', APIURL = '''',
     HTTPRetryMax = Some 5, HTTPRetryWaitMax = Some (F64 30), HTTPRetryWaitMin = Some (F64 1),
     Region = ''nyc3'', Size = ''s-1vcpu-1gb'', Image_cfg = ''ubuntu-22-04-x64'',
     PrivateNetworking = False, Monitoring = False, DropletAgent = None, IPv6 = False,
     SnapshotName = ''packer-1700000000'', SnapshotRegions = [],
     WaitSnapshotTransfer = Some True,
     TransferTimeout = 30 * Minute, StateTimeout = 6 * Minute, SnapshotTimeout = 60 * Minute,
     DropletName = ''packer-droplet'', UserData = '''', UserDataFile = '''', Tags = Some [],
     VPCUUID = '''', ConnectWithPrivateIP = False, SSHKeyID = 0, SkipKeygen = False\<rparr>"

definition example_run_world :: run_world where
  "example_run_world =
    \<lparr>useragent_String = ''packer-plugin-digitalocean'',
     url_Parse = (\<lambda>u. None),
     godo_New = (\<lambda>token opts. None),
     Regions_List = (\<lambda>cl opt. Inr [\<lparr>Slug = ''nyc3''\<rparr>, \<lparr>Slug = ''sfo3''\<rparr>]),
     runner_Run = (\<lambda>conf steps state.
        state(''snapshot_name'' \<mapsto> VString ''packer-1700000000'',
              ''snapshot_image_id'' \<mapsto> VInt 42,
              ''regions'' \<mapsto> VStrings [''nyc3'']))\<rparr>"

definition cancelled_run_world :: run_world where
  "cancelled_run_world =
     example_run_world\<lparr>runner_Run := (\<lambda>conf steps state. state(''cancelled'' \<mapsto> VBool True))\<rparr>"

definition failing_run_world :: run_world where
  "failing_run_world =
     example_run_world\<lparr>runner_Run := (\<lambda>conf steps state.
        state(''error'' \<mapsto> VError (Err ''Error creating droplet'')))\<rparr>"

definition unknown_region_config :: Config where
  "unknown_region_config = example_config\<lparr>SnapshotRegions := [''sfo3'', ''ams9'']\<rparr>"

text \<open>The artifact \<open>a\<close> holds what the state bag holds: its name, id and regions are the
  bag's entries of the asserted types, its client is \<open>cl\<close>, and its metadata has the five
  keys of the literal.\<close>

definition fully_populated :: "state_bag \<Rightarrow> client \<Rightarrow> Artifact \<Rightarrow> bool" where
  "fully_populated state cl a =
    (state ''snapshot_name'' = Some (VString (SnapshotName_a a)) \<and>
     state ''snapshot_image_id'' = Some (VInt (SnapshotId a)) \<and>
     state ''regions'' = Some (VStrings (RegionNames a)) \<and>
     Client_a a = cl \<and>
     StateData a ''generated_data'' = Some (Get state ''generated_data'') \<and>
     StateData a ''source_image_id'' = Some (Get state ''source_image_id'') \<and>
     StateData a ''droplet_size'' = Some (Get state ''droplet_size'') \<and>
     StateData a ''droplet_name'' = Some (Get state ''droplet_name'') \<and>
     StateData a ''build_region'' = Some (Get state ''build_region''))"

text \<open>A configuration that names an existing key and its private-key file.\<close>

definition existing_key_config :: Config where
  "existing_key_config =
     example_config\<lparr>SSHKeyID := 7, Comm := \<lparr>SSHPrivateKeyFile = ''/home/packer/.ssh/id_rsa''\<rparr>\<rparr>"

text \<open>
  \<open>Config.Prepare\<close> stops before its validations (line 229): \<open>config.Decode\<close> failed, an
  environment value of the retry policy did not parse, or the default snapshot name could
  not be rendered.
\<close>

definition aborts_before_validation :: "prepare_world \<Rightarrow> Config \<Rightarrow> bool" where
  "aborts_before_validation w c = isl (Prepare_defaults w c)"

text \<open>A configuration as decoded from a template that sets only the token, region, size and image;
  an environment without variables; one that sets \<open>DIGITALOCEAN_HTTP_RETRY_MAX\<close> to 3.\<close>

definition template_config :: Config where
  "template_config =
    \<lparr>PackerConfig = \<lparr>PackerBuildName = ''digitalocean'', PackerDebug = False\<rparr>,
     Comm = \<lparr>SSHPrivateKeyFile = ''''\<rparr>,
     APIToken = ''dop_v1_token'', APIURL = '''',
     HTTPRetryMax = None, HTTPRetryWaitMax = None, HTTPRetryWaitMin = None,
     Region = ''nyc3'', Size = ''s-1vcpu-1gb'', Image_cfg = ''ubuntu-22-04-x64'',
     PrivateNetworking = False, Monitoring = False, DropletAgent = None, IPv6 = False,
     SnapshotName = '''', SnapshotRegions = [],
     WaitSnapshotTransfer = None,
     TransferTimeout = 0, StateTimeout = 0, SnapshotTimeout = 0,
     DropletName = '''', UserData = '''', UserDataFile = '''', Tags = None,
     VPCUUID = '''', ConnectWithPrivateIP = False, SSHKeyID = 0, SkipKeygen = False\<rparr>"

definition example_prepare_world :: prepare_world where
  "example_prepare_world =
    \<lparr>Decode_err = None,
     Getenv = (\<lambda>name. ''''),
     Atoi = (\<lambda>s. Inl (Err ''strconv.Atoi: invalid syntax'')),
     ParseFloat = (\<lambda>s. Inl (Err ''strconv.ParseFloat: invalid syntax'')),
     Render_default = Inr ''packer-1700000000'',
     TimeOrderedUUID = ''65a1f2c0-0000-0000-0000-000000000000'',
     Comm_Prepare = (\<lambda>comm. (comm, [])),
     Stat_ok = (\<lambda>path. False)\<rparr>"

definition retry_env_world :: prepare_world where
  "retry_env_world =
     example_prepare_world
      \<lparr>Getenv := (\<lambda>name. if name = ''DIGITALOCEAN_HTTP_RETRY_MAX'' then ''3'' else ''''),
       Atoi := (\<lambda>s. if s = ''3'' then Inr 3 else Inl (Err ''strconv.Atoi: invalid syntax''))\<rparr>"

definition keyed_template_config :: Config where
  "keyed_template_config =
     template_config\<lparr>SSHKeyID := 7, Comm := \<lparr>SSHPrivateKeyFile = ''/home/packer/.ssh/id_rsa''\<rparr>\<rparr>"

definition no_region_template_config :: Config where
  "no_region_template_config = template_config\<lparr>Region := ''''\<rparr>"

definition no_retry_config :: Config where
  "no_retry_config = example_config\<lparr>HTTPRetryMax := Some 0\<rparr>"

section \<open>Properties\<close>

lemma first_invalid_None: "first_invalid V xs = None \<longleftrightarrow> set xs \<subseteq> V"
  by (induction xs) auto

lemma first_invalid_Some: "first_invalid V xs = Some r \<Longrightarrow> r \<in> set xs \<and> r \<notin> V"
  by (induction xs) (auto split: if_splits)

lemma Run_runner_steps:
  "EvRunnerRun steps \<in> set (events (Run w c)) \<Longrightarrow> build_steps c = Some steps"
  by (auto simp: Run_def run_pipeline_def stop_def Let_def
      split: sum.splits option.splits if_splits)

lemma Run_final_state:
  "final_state (Run w c) = Some st \<Longrightarrow>
     \<exists>opts steps. client_options w c = Inr opts \<and> build_steps c = Some steps \<and>
       st = runner_Run w (PackerConfig c) steps
              [''config'' \<mapsto> VConfig c, ''client'' \<mapsto> VClient (Client (APIToken c) opts),
               ''hook'' \<mapsto> VHook, ''ui'' \<mapsto> VUi] \<and>
       outcome (Run w c) = finish (Client (APIToken c) opts) st"
  by (auto simp: Run_def run_pipeline_def stop_def Let_def Put_def
      split: sum.splits option.splits if_splits)

lemma client_options_Inl:
  "client_options w c = Inl oc \<Longrightarrow> oc = Panic \<or> (\<exists>e. oc = Return None (Some e))"
  unfolding client_options_def Let_def
  by (cases "APIURL c = ''''"; cases "url_Parse w (APIURL c)"; cases "HTTPRetryMax c")
     (auto split: if_splits)

lemma Run_no_final_state:
  "final_state (Run w c) = None \<Longrightarrow>
     outcome (Run w c) = Panic \<or> (\<exists>e. outcome (Run w c) = Return None (Some e))"
  using client_options_Inl [of w c]
  by (auto simp: Run_def run_pipeline_def stop_def Let_def
      split: sum.splits option.splits if_splits)

text \<open>
  Claim C1. Once the client exists (the options were built and \<open>godo.New\<close> gave no error), a
  configuration with a non-empty \<open>snapshot_regions\<close> makes \<open>Builder.Run\<close> call
  \<open>Regions.List\<close> exactly once; if the call answers and some slug among the snapshot
  regions and the build region is not in the answer, \<open>Run\<close> returns the error naming such
  a slug, and the only calls it has made are \<open>godo.New\<close> and \<open>Regions.List\<close>: no state
  bag was created and the runner never ran. With an empty \<open>snapshot_regions\<close> there is no
  \<open>Regions.List\<close> call at all, and what \<open>Run\<close> does is the same whatever that call
  would have answered.
\<close>

theorem Run_region_preflight:
  "(\<forall>opts. client_options w c = Inr opts \<and> godo_New w (APIToken c) opts = None \<and>
       SnapshotRegions c \<noteq> [] \<longrightarrow>
       length (filter is_EvRegionsList (events (Run w c))) = 1 \<and>
       (\<forall>regions.
          Regions_List w (Client (APIToken c) opts) \<lparr>Page = 1, PerPage = 200\<rparr> = Inr regions \<and>
          \<not> set (SnapshotRegions c @ [Region c]) \<subseteq> set (map Slug regions) \<longrightarrow>
          (\<exists>region \<in> set (SnapshotRegions c @ [Region c]).
             region \<notin> set (map Slug regions) \<and>
             outcome (Run w c) = Return None (Some (Err (''DigitalOcean: Invalid region, '' @ region)))) \<and>
          events (Run w c) = [EvGodoNew opts, EvRegionsList \<lparr>Page = 1, PerPage = 200\<rparr>] \<and>
          final_state (Run w c) = None))
   \<and> (SnapshotRegions c = [] \<longrightarrow>
        filter is_EvRegionsList (events (Run w c)) = [] \<and>
        (\<forall>f. Run (w\<lparr>Regions_List := f\<rparr>) c = Run w c))"
proof (intro conjI allI impI)
  fix opts
  assume h: "client_options w c = Inr opts \<and> godo_New w (APIToken c) opts = None \<and>
       SnapshotRegions c \<noteq> []"
  show "length (filter is_EvRegionsList (events (Run w c))) = 1"
    using h by (auto simp: Run_def run_pipeline_def stop_def Let_def
        split: sum.splits option.splits)
  fix regions
  assume r: "Regions_List w (Client (APIToken c) opts) \<lparr>Page = 1, PerPage = 200\<rparr> = Inr regions \<and>
          \<not> set (SnapshotRegions c @ [Region c]) \<subseteq> set (map Slug regions)"
  then obtain region where
    fi: "first_invalid (set (map Slug regions)) (SnapshotRegions c @ [Region c]) = Some region"
    using first_invalid_None [of "set (map Slug regions)" "SnapshotRegions c @ [Region c]"]
    by (cases "first_invalid (set (map Slug regions)) (SnapshotRegions c @ [Region c])") auto
  have run: "Run w c = stop [EvGodoNew opts, EvRegionsList \<lparr>Page = 1, PerPage = 200\<rparr>]
      (Return None (Some (Err (''DigitalOcean: Invalid region, '' @ region))))"
    using h r fi by (simp add: Run_def validate_regions_def Let_def)
  show "\<exists>region \<in> set (SnapshotRegions c @ [Region c]).
             region \<notin> set (map Slug regions) \<and>
             outcome (Run w c) = Return None (Some (Err (''DigitalOcean: Invalid region, '' @ region)))"
    using first_invalid_Some [OF fi] run by (intro bexI [of _ region]) (simp_all add: stop_def)
  show "events (Run w c) = [EvGodoNew opts, EvRegionsList \<lparr>Page = 1, PerPage = 200\<rparr>]"
    using run by (simp add: stop_def)
  show "final_state (Run w c) = None"
    using run by (simp add: stop_def)
next
  assume e: "SnapshotRegions c = []"
  show "filter is_EvRegionsList (events (Run w c)) = []"
    using e by (auto simp: Run_def run_pipeline_def stop_def Let_def
        split: sum.splits option.splits)
  fix f
  show "Run (w\<lparr>Regions_List := f\<rparr>) c = Run w c"
  proof -
    have co: "client_options (w\<lparr>Regions_List := f\<rparr>) c = client_options w c"
      by (simp add: client_options_def Let_def cong: if_cong)
    have rp: "\<And>cl evs. run_pipeline (w\<lparr>Regions_List := f\<rparr>) c cl evs = run_pipeline w c cl evs"
      by (simp add: run_pipeline_def Let_def split: option.splits)
    show ?thesis
      using e by (simp add: Run_def co rp Let_def split: sum.splits option.splits)
  qed
qed

text \<open>The theorem at a configuration with the unknown region \<open>ams9\<close>, and at one without
  snapshot regions.\<close>

theorem Run_region_preflight_witness:
  "SnapshotRegions unknown_region_config \<noteq> [] \<and>
   length (filter is_EvRegionsList (events (Run example_run_world unknown_region_config))) = 1 \<and>
   outcome (Run example_run_world unknown_region_config) =
     Return None (Some (Err ''DigitalOcean: Invalid region, ams9'')) \<and>
   final_state (Run example_run_world unknown_region_config) = None \<and>
   SnapshotRegions example_config = [] \<and>
   filter is_EvRegionsList (events (Run example_run_world example_config)) = []"
proof -
  let ?opts = "[SetUserAgent ''packer-plugin-digitalocean'',
      WithRetryAndBackoffs \<lparr>RetryMax = 5, RetryWaitMin = Some (F64 1), RetryWaitMax = Some (F64 30)\<rparr>]"
  let ?regions = "[\<lparr>Slug = ''nyc3''\<rparr>, \<lparr>Slug = ''sfo3''\<rparr>]"
  have h: "client_options example_run_world unknown_region_config = Inr ?opts \<and>
      godo_New example_run_world (APIToken unknown_region_config) ?opts = None \<and>
      SnapshotRegions unknown_region_config \<noteq> []"
    by (simp add: client_options_def example_run_world_def unknown_region_config_def
        example_config_def)
  have r: "Regions_List example_run_world (Client (APIToken unknown_region_config) ?opts)
        \<lparr>Page = 1, PerPage = 200\<rparr> = Inr ?regions \<and>
      \<not> set (SnapshotRegions unknown_region_config @ [Region unknown_region_config])
          \<subseteq> set (map Slug ?regions)"
    by (simp add: example_run_world_def unknown_region_config_def example_config_def)
  have e: "SnapshotRegions example_config = []"
    by (simp add: example_config_def)
  note t1 = Run_region_preflight [of example_run_world unknown_region_config]
  note t2 = Run_region_preflight [of example_run_world example_config]
  from t1 h have one:
    "length (filter is_EvRegionsList (events (Run example_run_world unknown_region_config))) = 1"
    by blast
  from t1 h r have fs: "final_state (Run example_run_world unknown_region_config) = None"
    by blast
  from t1 h r obtain region where
    "region \<in> set (SnapshotRegions unknown_region_config @ [Region unknown_region_config])"
    "region \<notin> set (map Slug ?regions)"
    "outcome (Run example_run_world unknown_region_config) =
       Return None (Some (Err (''DigitalOcean: Invalid region, '' @ region)))"
    by blast
  then have oc: "outcome (Run example_run_world unknown_region_config) =
     Return None (Some (Err ''DigitalOcean: Invalid region, ams9''))"
    by (auto simp: unknown_region_config_def example_config_def)
  from t2 e have none: "filter is_EvRegionsList (events (Run example_run_world example_config)) = []"
    by blast
  from h e one oc fs none show ?thesis by simp
qed

lemma as_string_Some: "as_string v = Some s \<Longrightarrow> v = VString s"
  by (cases v) simp_all

lemma as_int_Some: "as_int v = Some i \<Longrightarrow> v = VInt i"
  by (cases v) simp_all

lemma as_strings_Some: "as_strings v = Some xs \<Longrightarrow> v = VStrings xs"
  by (cases v) simp_all

lemma as_error_Some: "as_error v = Some e \<Longrightarrow> v = VError e"
  by (cases v) simp_all

lemma Get_VString: "Get state k = VString s \<Longrightarrow> state k = Some (VString s)"
  by (simp add: Get_def split: option.splits)

lemma Get_VInt: "Get state k = VInt i \<Longrightarrow> state k = Some (VInt i)"
  by (simp add: Get_def split: option.splits)

lemma Get_VStrings: "Get state k = VStrings xs \<Longrightarrow> state k = Some (VStrings xs)"
  by (simp add: Get_def split: option.splits)

lemma finish_artifact:
  assumes "finish cl state = Return (Some a) e"
  shows "e = None \<and> state ''error'' = None \<and> fully_populated state cl a"
proof -
  from assms have err: "state ''error'' = None"
    by (simp add: finish_def GetOk_def split: option.splits)
  from assms err obtain name i rs where
    n: "as_string (Get state ''snapshot_name'') = Some name" and
    i: "as_int (Get state ''snapshot_image_id'') = Some i" and
    r: "as_strings (Get state ''regions'') = Some rs" and
    a: "a = \<lparr>SnapshotName_a = name, SnapshotId = i, RegionNames = rs, Client_a = cl,
          StateData =
            [''generated_data'' \<mapsto> Get state ''generated_data'',
             ''source_image_id'' \<mapsto> Get state ''source_image_id'',
             ''droplet_size'' \<mapsto> Get state ''droplet_size'',
             ''droplet_name'' \<mapsto> Get state ''droplet_name'',
             ''build_region'' \<mapsto> Get state ''build_region'']\<rparr>" and
    e: "e = None"
    by (auto simp: finish_def GetOk_def split: option.splits)
  have "state ''snapshot_name'' = Some (VString name)"
    using as_string_Some [OF n] by (rule Get_VString)
  moreover have "state ''snapshot_image_id'' = Some (VInt i)"
    using as_int_Some [OF i] by (rule Get_VInt)
  moreover have "state ''regions'' = Some (VStrings rs)"
    using as_strings_Some [OF r] by (rule Get_VStrings)
  ultimately show ?thesis
    using err e a by (simp add: fully_populated_def)
qed

lemma finish_neither:
  "finish cl state = Return None None \<longleftrightarrow> state ''error'' = None \<and> state ''snapshot_name'' = None"
  by (auto simp: finish_def GetOk_def split: option.splits)

lemma finish_error:
  "state ''error'' = Some (VError err) \<Longrightarrow> finish cl state = Return None (Some err)"
  by (simp add: finish_def GetOk_def)

text \<open>The definitions that evaluate a run on the example inputs.\<close>

lemmas run_eval =
  Run_def client_options_def run_pipeline_def build_steps_def finish_def GetOk_def Get_def
  Put_def stop_def Let_def example_run_world_def example_config_def cancelled_run_world_def
  failing_run_world_def

text \<open>
  Claim C2, as stated, fails: a run whose runner leaves neither an \<open>error\<close> nor a
  \<open>snapshot_name\<close> in the state bag (here a cancelled build) completes and returns
  neither an artifact nor an error.
\<close>

theorem Run_neither_counterexample:
  "final_state (Run cancelled_run_world example_config) \<noteq> None \<and>
   outcome (Run cancelled_run_world example_config) = Return None None"
  by (simp add: Run_def cancelled_run_world_def example_run_world_def example_config_def
      client_options_def run_pipeline_def build_steps_def finish_def GetOk_def Get_def Put_def
      stop_def)

lemma finish_success:
  "state ''error'' = None \<Longrightarrow> state ''snapshot_name'' = Some (VString name) \<Longrightarrow>
   state ''snapshot_image_id'' = Some (VInt i) \<Longrightarrow> state ''regions'' = Some (VStrings rs) \<Longrightarrow>
   \<exists>a. finish cl state = Return (Some a) None"
  by (simp add: finish_def GetOk_def Get_def)

lemma finish_present:
  "state ''error'' = None \<Longrightarrow> state ''snapshot_name'' \<noteq> None \<Longrightarrow>
   finish cl state \<noteq> Panic \<Longrightarrow> \<exists>a. finish cl state = Return (Some a) None"
  by (auto simp: finish_def GetOk_def split: option.splits)

text \<open>
  Claim C2, amended. What \<open>Builder.Run\<close> returns is never an artifact together with an
  error. An artifact comes with a nil error, after the runner ran and left no
  \<open>error\<close> entry, and it is fully populated from the state bag. Nil for both is returned
  only after the runner ran and left neither an \<open>error\<close> nor a \<open>snapshot_name\<close>
  entry. When the runner leaves an error value in the \<open>error\<close> slot, that error is
  returned with a nil artifact. On success an artifact is returned: when the runner leaves
  no \<open>error\<close> entry and a \<open>snapshot_name\<close> entry, \<open>Run\<close> returns a fully-populated
  artifact with a nil error unless it panics on a type assertion, and it does not panic
  when the name, the image id and the regions have their types.
\<close>

theorem Run_artifact_or_error:
  "(\<forall>a e. outcome (Run w c) = Return (Some a) e \<longrightarrow>
      e = None \<and>
      (\<exists>state opts. final_state (Run w c) = Some state \<and> state ''error'' = None \<and>
         fully_populated state (Client (APIToken c) opts) a)) \<and>
   (outcome (Run w c) = Return None None \<longrightarrow>
      (\<exists>state. final_state (Run w c) = Some state \<and> state ''error'' = None \<and>
         state ''snapshot_name'' = None)) \<and>
   (\<forall>state err. final_state (Run w c) = Some state \<and> state ''error'' = Some (VError err) \<longrightarrow>
      outcome (Run w c) = Return None (Some err)) \<and>
   (\<forall>state. final_state (Run w c) = Some state \<and> state ''error'' = None \<and>
      state ''snapshot_name'' \<noteq> None \<and> outcome (Run w c) \<noteq> Panic \<longrightarrow>
      (\<exists>a opts. outcome (Run w c) = Return (Some a) None \<and>
         fully_populated state (Client (APIToken c) opts) a)) \<and>
   (\<forall>state name i rs. final_state (Run w c) = Some state \<and> state ''error'' = None \<and>
      state ''snapshot_name'' = Some (VString name) \<and>
      state ''snapshot_image_id'' = Some (VInt i) \<and>
      state ''regions'' = Some (VStrings rs) \<longrightarrow>
      (\<exists>a opts. outcome (Run w c) = Return (Some a) None \<and>
         fully_populated state (Client (APIToken c) opts) a \<and>
         SnapshotName_a a = name \<and> SnapshotId a = i \<and> RegionNames a = rs))"
proof (intro conjI allI impI)
  fix a e
  assume oc: "outcome (Run w c) = Return (Some a) e"
  then have "final_state (Run w c) \<noteq> None"
    using Run_no_final_state [of w c] by auto
  then obtain state where fs: "final_state (Run w c) = Some state"
    by auto
  from Run_final_state [OF fs] obtain opts where
    f: "outcome (Run w c) = finish (Client (APIToken c) opts) state"
    by auto
  from finish_artifact [of "Client (APIToken c) opts" state a e] oc f
  have r: "e = None \<and> state ''error'' = None \<and> fully_populated state (Client (APIToken c) opts) a"
    by simp
  from r show "e = None" by simp
  from r fs show "\<exists>state opts. final_state (Run w c) = Some state \<and> state ''error'' = None \<and>
         fully_populated state (Client (APIToken c) opts) a"
    by blast
next
  assume oc: "outcome (Run w c) = Return None None"
  then have "final_state (Run w c) \<noteq> None"
    using Run_no_final_state [of w c] by auto
  then obtain state where fs: "final_state (Run w c) = Some state"
    by auto
  from Run_final_state [OF fs] obtain opts where
    f: "outcome (Run w c) = finish (Client (APIToken c) opts) state"
    by auto
  from oc f finish_neither [of "Client (APIToken c) opts" state]
  have "state ''error'' = None \<and> state ''snapshot_name'' = None"
    by simp
  with fs show "\<exists>state. final_state (Run w c) = Some state \<and> state ''error'' = None \<and>
         state ''snapshot_name'' = None"
    by blast
next
  fix state err
  assume h: "final_state (Run w c) = Some state \<and> state ''error'' = Some (VError err)"
  then have fs: "final_state (Run w c) = Some state" by simp
  from Run_final_state [OF fs] obtain opts where
    f: "outcome (Run w c) = finish (Client (APIToken c) opts) state"
    by auto
  from h f finish_error [of state err "Client (APIToken c) opts"]
  show "outcome (Run w c) = Return None (Some err)"
    by simp
next
  fix state
  assume h: "final_state (Run w c) = Some state \<and> state ''error'' = None \<and>
      state ''snapshot_name'' \<noteq> None \<and> outcome (Run w c) \<noteq> Panic"
  then have fs: "final_state (Run w c) = Some state" by simp
  from Run_final_state [OF fs] obtain opts where
    f: "outcome (Run w c) = finish (Client (APIToken c) opts) state"
    by auto
  from h f finish_present [of state "Client (APIToken c) opts"] obtain a where
    a: "finish (Client (APIToken c) opts) state = Return (Some a) None"
    by auto
  from finish_artifact [OF a] have "fully_populated state (Client (APIToken c) opts) a"
    by simp
  with a f show "\<exists>a opts. outcome (Run w c) = Return (Some a) None \<and>
         fully_populated state (Client (APIToken c) opts) a"
    by auto
next
  fix state name i rs
  assume h: "final_state (Run w c) = Some state \<and> state ''error'' = None \<and>
      state ''snapshot_name'' = Some (VString name) \<and>
      state ''snapshot_image_id'' = Some (VInt i) \<and>
      state ''regions'' = Some (VStrings rs)"
  then have fs: "final_state (Run w c) = Some state" by simp
  from Run_final_state [OF fs] obtain opts where
    f: "outcome (Run w c) = finish (Client (APIToken c) opts) state"
    by auto
  from h finish_success [of state name i rs "Client (APIToken c) opts"] obtain a where
    a: "finish (Client (APIToken c) opts) state = Return (Some a) None"
    by auto
  from finish_artifact [OF a] have fp: "fully_populated state (Client (APIToken c) opts) a"
    by simp
  with h have "SnapshotName_a a = name \<and> SnapshotId a = i \<and> RegionNames a = rs"
    by (simp add: fully_populated_def)
  with a f fp show "\<exists>a opts. outcome (Run w c) = Return (Some a) None \<and>
         fully_populated state (Client (APIToken c) opts) a \<and>
         SnapshotName_a a = name \<and> SnapshotId a = i \<and> RegionNames a = rs"
    by auto
qed

text \<open>The amended C2 at a successful run, a cancelled run and a failed run.\<close>

theorem Run_artifact_or_error_witness:
  "(\<exists>a. outcome (Run example_run_world example_config) = Return (Some a) None \<and>
        SnapshotName_a a = ''packer-1700000000'' \<and> SnapshotId a = 42 \<and>
        RegionNames a = [''nyc3'']) \<and>
   (\<exists>state. final_state (Run cancelled_run_world example_config) = Some state \<and>
        state ''error'' = None \<and> state ''snapshot_name'' = None) \<and>
   outcome (Run failing_run_world example_config) =
     Return None (Some (Err ''Error creating droplet''))"
proof -
  note ok = Run_artifact_or_error [of example_run_world example_config]
  note cancelled = Run_artifact_or_error [of cancelled_run_world example_config]
  note failing = Run_artifact_or_error [of failing_run_world example_config]
  note typed = ok [THEN conjunct2, THEN conjunct2, THEN conjunct2, THEN conjunct2, rule_format]
  note present = ok [THEN conjunct2, THEN conjunct2, THEN conjunct2, THEN conjunct1, rule_format]
  note neither = cancelled [THEN conjunct2, THEN conjunct1, rule_format]
  note failed = failing [THEN conjunct2, THEN conjunct2, THEN conjunct1, rule_format]
  have "\<exists>st. final_state (Run example_run_world example_config) = Some st \<and>
      st ''error'' = None \<and>
      st ''snapshot_name'' = Some (VString ''packer-1700000000'') \<and>
      st ''snapshot_image_id'' = Some (VInt 42) \<and> st ''regions'' = Some (VStrings [''nyc3''])"
    by (simp add: run_eval)
  then obtain st where
    st: "final_state (Run example_run_world example_config) = Some st \<and>
      st ''error'' = None \<and>
      st ''snapshot_name'' = Some (VString ''packer-1700000000'') \<and>
      st ''snapshot_image_id'' = Some (VInt 42) \<and> st ''regions'' = Some (VStrings [''nyc3''])"
    by (rule exE)
  from typed [OF st] obtain a where
    oc: "outcome (Run example_run_world example_config) = Return (Some a) None" and
    fields: "SnapshotName_a a = ''packer-1700000000'' \<and> SnapshotId a = 42 \<and>
        RegionNames a = [''nyc3'']"
    by auto
  from st oc have p: "final_state (Run example_run_world example_config) = Some st \<and>
      st ''error'' = None \<and> st ''snapshot_name'' \<noteq> None \<and>
      outcome (Run example_run_world example_config) \<noteq> Panic"
    by simp
  from present [OF p] have "\<exists>a. outcome (Run example_run_world example_config) = Return (Some a) None"
    by auto
  with oc fields have first:
    "\<exists>a. outcome (Run example_run_world example_config) = Return (Some a) None \<and>
        SnapshotName_a a = ''packer-1700000000'' \<and> SnapshotId a = 42 \<and>
        RegionNames a = [''nyc3'']"
    by auto
  have "outcome (Run cancelled_run_world example_config) = Return None None"
    by (simp add: run_eval)
  from neither [OF this] have second:
    "\<exists>state. final_state (Run cancelled_run_world example_config) = Some state \<and>
        state ''error'' = None \<and> state ''snapshot_name'' = None" .
  have "\<exists>st. final_state (Run failing_run_world example_config) = Some st \<and>
      st ''error'' = Some (VError (Err ''Error creating droplet''))"
    by (simp add: run_eval)
  then obtain fst0 where f0: "final_state (Run failing_run_world example_config) = Some fst0 \<and>
      fst0 ''error'' = Some (VError (Err ''Error creating droplet''))"
    by (rule exE)
  from failed [OF f0] have third: "outcome (Run failing_run_world example_config) =
     Return None (Some (Err ''Error creating droplet''))" .
  from first second third show ?thesis
    by (intro conjI)
qed

text \<open>
  Claim C8. If the state bag the runner leaves has neither an \<open>error\<close> entry nor a
  \<open>snapshot_name\<close> entry, \<open>Builder.Run\<close> returns nil for the artifact and nil for
  the error.
\<close>

theorem Run_no_error_no_snapshot_name:
  "final_state (Run w c) = Some state \<Longrightarrow> state ''error'' = None \<Longrightarrow>
   state ''snapshot_name'' = None \<Longrightarrow> outcome (Run w c) = Return None None"
proof -
  assume fs: "final_state (Run w c) = Some state"
    and e: "state ''error'' = None" and n: "state ''snapshot_name'' = None"
  from Run_final_state [OF fs] obtain opts where
    f: "outcome (Run w c) = finish (Client (APIToken c) opts) state"
    by auto
  from e n f finish_neither [of "Client (APIToken c) opts" state]
  show ?thesis by simp
qed

text \<open>C8 at the cancelled run.\<close>

theorem Run_no_error_no_snapshot_name_witness:
  "(\<exists>state. final_state (Run cancelled_run_world example_config) = Some state \<and>
      state ''cancelled'' = Some (VBool True) \<and> state ''error'' = None \<and>
      state ''snapshot_name'' = None) \<and>
   outcome (Run cancelled_run_world example_config) = Return None None"
proof -
  have "\<exists>state. final_state (Run cancelled_run_world example_config) = Some state \<and>
      state ''cancelled'' = Some (VBool True) \<and> state ''error'' = None \<and>
      state ''snapshot_name'' = None"
    by (simp add: run_eval)
  then obtain state where
    fs: "final_state (Run cancelled_run_world example_config) = Some state" and
    c: "state ''cancelled'' = Some (VBool True)" and
    e: "state ''error'' = None" and n: "state ''snapshot_name'' = None"
    by blast
  from Run_no_error_no_snapshot_name [OF fs e n] fs c e n show ?thesis
    by blast
qed

lemma build_steps_Some:
  "build_steps c = Some steps \<Longrightarrow>
     \<exists>wait. WaitSnapshotTransfer c = Some wait \<and>
       steps =
        [ multistep_If (genTempKeyPair c) StepSSHKeyGen,
          multistep_If (PackerDebug (PackerConfig c) \<and> SSHPrivateKeyFile (Comm c) = '''')
            (StepDumpSSHKey (''do_'' @ PackerBuildName (PackerConfig c) @ ''.pem'')),
          multistep_If (genTempKeyPair c) stepCreateSSHKey,
          stepCreateDroplet, stepDropletInfo, StepConnect, StepProvision,
          multistep_If (genTempKeyPair c) StepCleanupTempKeys,
          stepShutdown, stepPowerOff,
          stepSnapshot (SnapshotTimeout c) (TransferTimeout c) wait ]"
  by (auto simp: build_steps_def split: option.splits)

lemma Run_runner_once:
  "EvRunnerRun steps \<in> set (events (Run w c)) \<Longrightarrow>
     filter is_EvRunnerRun (events (Run w c)) = [EvRunnerRun steps] \<and>
     last (events (Run w c)) = EvRunnerRun steps"
  by (auto simp: Run_def run_pipeline_def stop_def Let_def
      split: sum.splits option.splits if_splits)

lemma example_run_steps:
  "EvRunnerRun
     [StepSSHKeyGen, nullStep, stepCreateSSHKey, stepCreateDroplet, stepDropletInfo,
      StepConnect, StepProvision, StepCleanupTempKeys, stepShutdown, stepPowerOff,
      stepSnapshot (60 * Minute) (30 * Minute) True]
   \<in> set (events (Run example_run_world example_config))"
  by (simp add: run_eval multistep_If_def genTempKeyPair_def)

lemma existing_key_run_steps:
  "EvRunnerRun
     [nullStep, nullStep, nullStep, stepCreateDroplet, stepDropletInfo,
      StepConnect, StepProvision, nullStep, stepShutdown, stepPowerOff,
      stepSnapshot (60 * Minute) (30 * Minute) True]
   \<in> set (events (Run example_run_world existing_key_config))"
  by (simp add: run_eval existing_key_config_def multistep_If_def genTempKeyPair_def)

text \<open>
  Claim C4. In the step list that \<open>Builder.Run\<close> hands to the runner, the key generation
  step and the key registration step are present exactly when \<open>skip_keygen\<close> is false and
  either \<open>ssh_key_id\<close> is 0 or \<open>ssh_private_key_file\<close> is empty. The list is the value
  of \<open>build_steps\<close> on the configuration alone, it is handed over in one call of the
  runner, and that call is the last thing \<open>Run\<close> does before reading the result: the
  predicate is fixed when the list is built, before any step runs.
\<close>

theorem Run_keygen_steps:
  "EvRunnerRun steps \<in> set (events (Run w c)) \<Longrightarrow>
     (StepSSHKeyGen \<in> set steps \<longleftrightarrow>
        (\<not> SkipKeygen c \<and> (SSHKeyID c = 0 \<or> SSHPrivateKeyFile (Comm c) = ''''))) \<and>
     (stepCreateSSHKey \<in> set steps \<longleftrightarrow>
        (\<not> SkipKeygen c \<and> (SSHKeyID c = 0 \<or> SSHPrivateKeyFile (Comm c) = ''''))) \<and>
     build_steps c = Some steps \<and>
     filter is_EvRunnerRun (events (Run w c)) = [EvRunnerRun steps] \<and>
     last (events (Run w c)) = EvRunnerRun steps"
proof -
  assume ev: "EvRunnerRun steps \<in> set (events (Run w c))"
  from Run_runner_steps [OF ev] have bs: "build_steps c = Some steps" .
  from build_steps_Some [OF bs] have
    "(StepSSHKeyGen \<in> set steps \<longleftrightarrow> genTempKeyPair c) \<and>
     (stepCreateSSHKey \<in> set steps \<longleftrightarrow> genTempKeyPair c)"
    by (auto simp: multistep_If_def split: if_splits)
  with bs Run_runner_once [OF ev] show ?thesis
    by (simp add: genTempKeyPair_def)
qed

text \<open>C4 at a configuration without a key and at one with an existing key and key file.\<close>

theorem Run_keygen_steps_witness:
  "(\<exists>steps. EvRunnerRun steps \<in> set (events (Run example_run_world example_config)) \<and>
      StepSSHKeyGen \<in> set steps \<and> stepCreateSSHKey \<in> set steps \<and>
      \<not> SkipKeygen example_config \<and> SSHKeyID example_config = 0) \<and>
   (\<exists>steps. EvRunnerRun steps \<in> set (events (Run example_run_world existing_key_config)) \<and>
      StepSSHKeyGen \<notin> set steps \<and> stepCreateSSHKey \<notin> set steps \<and>
      SSHKeyID existing_key_config = 7 \<and>
      SSHPrivateKeyFile (Comm existing_key_config) = ''/home/packer/.ssh/id_rsa'')"
proof -
  have c1: "\<not> SkipKeygen example_config \<and> SSHKeyID example_config = 0"
    by (simp add: example_config_def)
  have c2: "SSHKeyID existing_key_config = 7 \<and>
      SSHPrivateKeyFile (Comm existing_key_config) = ''/home/packer/.ssh/id_rsa''"
    by (simp add: existing_key_config_def example_config_def)
  from Run_keygen_steps [OF example_run_steps] c1
  have "StepSSHKeyGen \<in> set [StepSSHKeyGen, nullStep, stepCreateSSHKey, stepCreateDroplet,
      stepDropletInfo, StepConnect, StepProvision, StepCleanupTempKeys, stepShutdown,
      stepPowerOff, stepSnapshot (60 * Minute) (30 * Minute) True] \<and>
    stepCreateSSHKey \<in> set [StepSSHKeyGen, nullStep, stepCreateSSHKey, stepCreateDroplet,
      stepDropletInfo, StepConnect, StepProvision, StepCleanupTempKeys, stepShutdown,
      stepPowerOff, stepSnapshot (60 * Minute) (30 * Minute) True]"
    by blast
  with example_run_steps c1 have first:
    "\<exists>steps. EvRunnerRun steps \<in> set (events (Run example_run_world example_config)) \<and>
      StepSSHKeyGen \<in> set steps \<and> stepCreateSSHKey \<in> set steps \<and>
      \<not> SkipKeygen example_config \<and> SSHKeyID example_config = 0"
    by blast
  from Run_keygen_steps [OF existing_key_run_steps] c2
  have "StepSSHKeyGen \<notin> set [nullStep, nullStep, nullStep, stepCreateDroplet, stepDropletInfo,
      StepConnect, StepProvision, nullStep, stepShutdown, stepPowerOff,
      stepSnapshot (60 * Minute) (30 * Minute) True] \<and>
    stepCreateSSHKey \<notin> set [nullStep, nullStep, nullStep, stepCreateDroplet, stepDropletInfo,
      StepConnect, StepProvision, nullStep, stepShutdown, stepPowerOff,
      stepSnapshot (60 * Minute) (30 * Minute) True]"
    by simp
  with existing_key_run_steps c2 have second:
    "\<exists>steps. EvRunnerRun steps \<in> set (events (Run example_run_world existing_key_config)) \<and>
      StepSSHKeyGen \<notin> set steps \<and> stepCreateSSHKey \<notin> set steps \<and>
      SSHKeyID existing_key_config = 7 \<and>
      SSHPrivateKeyFile (Comm existing_key_config) = ''/home/packer/.ssh/id_rsa''"
    by blast
  from first second show ?thesis ..
qed

text \<open>
  Claim C5. The step list handed to the runner ends with the shutdown step, the power-off
  step and the snapshot step, in this order, and none of the three occurs earlier. Hence
  every initial segment of the list (what a sequential runner has run so far) that contains
  the snapshot step contains the power-off step and the shutdown step.
\<close>

theorem Run_shutdown_poweroff_snapshot:
  "EvRunnerRun steps \<in> set (events (Run w c)) \<Longrightarrow>
     (\<exists>pre wait.
        steps = pre @ [stepShutdown, stepPowerOff,
                       stepSnapshot (SnapshotTimeout c) (TransferTimeout c) wait] \<and>
        stepShutdown \<notin> set pre \<and> stepPowerOff \<notin> set pre \<and>
        filter is_stepSnapshot pre = []) \<and>
     (\<forall>n. list_ex is_stepSnapshot (take n steps) \<longrightarrow>
        stepPowerOff \<in> set (take n steps) \<and> stepShutdown \<in> set (take n steps))"
proof -
  assume ev: "EvRunnerRun steps \<in> set (events (Run w c))"
  from build_steps_Some [OF Run_runner_steps [OF ev]] obtain wait where
    steps: "steps =
        [ multistep_If (genTempKeyPair c) StepSSHKeyGen,
          multistep_If (PackerDebug (PackerConfig c) \<and> SSHPrivateKeyFile (Comm c) = '''')
            (StepDumpSSHKey (''do_'' @ PackerBuildName (PackerConfig c) @ ''.pem'')),
          multistep_If (genTempKeyPair c) stepCreateSSHKey,
          stepCreateDroplet, stepDropletInfo, StepConnect, StepProvision,
          multistep_If (genTempKeyPair c) StepCleanupTempKeys,
          stepShutdown, stepPowerOff,
          stepSnapshot (SnapshotTimeout c) (TransferTimeout c) wait ]"
    by blast
  define pre where "pre = take 8 steps"
  have dec: "steps = pre @ [stepShutdown, stepPowerOff,
                       stepSnapshot (SnapshotTimeout c) (TransferTimeout c) wait]"
    by (simp add: pre_def steps)
  have pre: "stepShutdown \<notin> set pre \<and> stepPowerOff \<notin> set pre \<and> filter is_stepSnapshot pre = []"
    by (simp add: pre_def steps multistep_If_def)
  have len: "length pre = 8"
    by (simp add: pre_def steps)
  have order: "stepPowerOff \<in> set (take n steps) \<and> stepShutdown \<in> set (take n steps)"
    if ex: "list_ex is_stepSnapshot (take n steps)" for n
  proof (cases "n \<le> 10")
    case True
    let ?xs = "pre @ [stepShutdown, stepPowerOff]"
    let ?snap = "stepSnapshot (SnapshotTimeout c) (TransferTimeout c) wait"
    have l: "length ?xs = 10"
      using len by simp
    have "steps = ?xs @ [?snap]"
      using dec by simp
    then have "take n steps = take n ?xs @ take (n - length ?xs) [?snap]"
      by (simp only: take_append)
    with True l have "take n steps = take n (pre @ [stepShutdown, stepPowerOff])"
      by simp
    with ex obtain s where s: "s \<in> set (take n (pre @ [stepShutdown, stepPowerOff]))"
      and snap: "is_stepSnapshot s"
      by (auto simp: list_ex_iff)
    from s have "s \<in> set (pre @ [stepShutdown, stepPowerOff])"
      by (rule in_set_takeD)
    with snap pre have False
      by (auto simp: filter_empty_conv)
    then show ?thesis ..
  next
    case False
    then have "take n steps = steps"
      using len by (simp add: dec)
    then show ?thesis
      by (simp add: dec)
  qed
  from dec pre order show ?thesis
    by blast
qed

text \<open>C5 on the steps of the example run: the whole list, and the list without its last step.\<close>

theorem Run_shutdown_poweroff_snapshot_witness:
  "\<exists>steps. EvRunnerRun steps \<in> set (events (Run example_run_world example_config)) \<and>
     list_ex is_stepSnapshot (take 11 steps) \<and>
     stepPowerOff \<in> set (take 11 steps) \<and> stepShutdown \<in> set (take 11 steps) \<and>
     \<not> list_ex is_stepSnapshot (take 10 steps)"
proof -
  let ?steps = "[StepSSHKeyGen, nullStep, stepCreateSSHKey, stepCreateDroplet, stepDropletInfo,
      StepConnect, StepProvision, StepCleanupTempKeys, stepShutdown, stepPowerOff,
      stepSnapshot (60 * Minute) (30 * Minute) True]"
  have ex: "list_ex is_stepSnapshot (take 11 ?steps)"
    by simp
  have nex: "\<not> list_ex is_stepSnapshot (take 10 ?steps)"
    by simp
  from Run_shutdown_poweroff_snapshot [OF example_run_steps] ex
  have "stepPowerOff \<in> set (take 11 ?steps) \<and> stepShutdown \<in> set (take 11 ?steps)"
    by blast
  with example_run_steps ex nex show ?thesis
    by blast
qed

text \<open>The definitions that evaluate \<open>Prepare\<close> on the example inputs.\<close>

lemmas prepare_eval =
  Config_Prepare_def Builder_Prepare_def Prepare_defaults_def Prepare_validate_def
  default_APIToken_def default_APIURL_def default_HTTPRetryMax_def
  default_HTTPRetryWaitMax_def default_HTTPRetryWaitMin_def default_names_def
  default_timeouts_def add_errs_def LogSecretFilter_Set_def aborts_before_validation_def
  Let_def example_prepare_world_def retry_env_world_def template_config_def
  keyed_template_config_def no_region_template_config_def

lemma default_APIToken_frame:
  "fst (default_APIToken w c) = c\<lparr>APIToken := APIToken (fst (default_APIToken w c))\<rparr>"
  unfolding default_APIToken_def Let_def by simp

lemma default_APIURL_frame:
  "default_APIURL w c = c\<lparr>APIURL := APIURL (default_APIURL w c)\<rparr>"
  unfolding default_APIURL_def by simp

lemma default_HTTPRetryMax_Inr:
  "default_HTTPRetryMax w c = Inr c' \<Longrightarrow>
     c' = c\<lparr>HTTPRetryMax := HTTPRetryMax c'\<rparr> \<and>
     (HTTPRetryMax c = None \<and> Getenv w ''DIGITALOCEAN_HTTP_RETRY_MAX'' = '''' \<longrightarrow>
        HTTPRetryMax c' = Some 5)"
  unfolding default_HTTPRetryMax_def Let_def
  by (auto split: if_splits sum.splits)

lemma default_HTTPRetryWaitMax_Inr:
  "default_HTTPRetryWaitMax w c = Inr c' \<Longrightarrow>
     c' = c\<lparr>HTTPRetryWaitMax := HTTPRetryWaitMax c'\<rparr> \<and>
     (HTTPRetryWaitMax c = None \<and> Getenv w ''DIGITALOCEAN_HTTP_RETRY_WAIT_MAX'' = '''' \<longrightarrow>
        HTTPRetryWaitMax c' = Some (F64 30))"
  unfolding default_HTTPRetryWaitMax_def Let_def
  by (auto split: if_splits sum.splits)

lemma default_HTTPRetryWaitMin_Inr:
  "default_HTTPRetryWaitMin w c = Inr c' \<Longrightarrow>
     c' = c\<lparr>HTTPRetryWaitMin := HTTPRetryWaitMin c'\<rparr> \<and>
     (HTTPRetryWaitMin c = None \<and> Getenv w ''DIGITALOCEAN_HTTP_RETRY_WAIT_MIN'' = '''' \<longrightarrow>
        HTTPRetryWaitMin c' = Some (F64 1))"
  unfolding default_HTTPRetryWaitMin_def Let_def
  by (auto split: if_splits sum.splits)

lemma default_names_Inr:
  "default_names w c = Inr c' \<Longrightarrow>
     c' = c\<lparr>SnapshotName := SnapshotName c', DropletName := DropletName c'\<rparr>"
  unfolding default_names_def
  by (auto split: if_splits sum.splits)

lemma Prepare_defaults_Inr:
  "Prepare_defaults w c = Inr (c', warns) \<Longrightarrow>
     \<exists>c3 c4 c5 c6.
       default_HTTPRetryMax w (default_APIURL w (fst (default_APIToken w c))) = Inr c3 \<and>
       default_HTTPRetryWaitMax w c3 = Inr c4 \<and>
       default_HTTPRetryWaitMin w c4 = Inr c5 \<and>
       default_names w c5 = Inr c6 \<and>
       c' = default_timeouts c6 \<and> Decode_err w = None"
  unfolding Prepare_defaults_def Let_def
  by (auto split: option.splits sum.splits prod.splits)

lemma Prepare_validate_frame:
  "fst (Prepare_validate w c) =
     c\<lparr>Comm := Comm (fst (Prepare_validate w c)), Tags := Tags (fst (Prepare_validate w c))\<rparr>"
  unfolding Prepare_validate_def Let_def
  by (simp add: case_prod_unfold)

lemma default_APIToken_keeps:
  "StateTimeout (fst (default_APIToken w c)) = StateTimeout c \<and>
   SnapshotTimeout (fst (default_APIToken w c)) = SnapshotTimeout c \<and>
   TransferTimeout (fst (default_APIToken w c)) = TransferTimeout c \<and>
   WaitSnapshotTransfer (fst (default_APIToken w c)) = WaitSnapshotTransfer c \<and>
   HTTPRetryMax (fst (default_APIToken w c)) = HTTPRetryMax c \<and>
   HTTPRetryWaitMax (fst (default_APIToken w c)) = HTTPRetryWaitMax c \<and>
   HTTPRetryWaitMin (fst (default_APIToken w c)) = HTTPRetryWaitMin c"
  unfolding default_APIToken_def Let_def by simp

lemma default_APIURL_keeps:
  "StateTimeout (default_APIURL w c) = StateTimeout c \<and>
   SnapshotTimeout (default_APIURL w c) = SnapshotTimeout c \<and>
   TransferTimeout (default_APIURL w c) = TransferTimeout c \<and>
   WaitSnapshotTransfer (default_APIURL w c) = WaitSnapshotTransfer c \<and>
   HTTPRetryMax (default_APIURL w c) = HTTPRetryMax c \<and>
   HTTPRetryWaitMax (default_APIURL w c) = HTTPRetryWaitMax c \<and>
   HTTPRetryWaitMin (default_APIURL w c) = HTTPRetryWaitMin c"
  unfolding default_APIURL_def by simp

lemma default_HTTPRetryMax_keeps:
  "default_HTTPRetryMax w c = Inr c' \<Longrightarrow>
   StateTimeout c' = StateTimeout c \<and> SnapshotTimeout c' = SnapshotTimeout c \<and>
   TransferTimeout c' = TransferTimeout c \<and>
   WaitSnapshotTransfer c' = WaitSnapshotTransfer c \<and>
   HTTPRetryWaitMax c' = HTTPRetryWaitMax c \<and> HTTPRetryWaitMin c' = HTTPRetryWaitMin c"
  unfolding default_HTTPRetryMax_def Let_def
  by (auto split: if_splits sum.splits)

lemma default_HTTPRetryWaitMax_keeps:
  "default_HTTPRetryWaitMax w c = Inr c' \<Longrightarrow>
   StateTimeout c' = StateTimeout c \<and> SnapshotTimeout c' = SnapshotTimeout c \<and>
   TransferTimeout c' = TransferTimeout c \<and>
   WaitSnapshotTransfer c' = WaitSnapshotTransfer c \<and>
   HTTPRetryMax c' = HTTPRetryMax c \<and> HTTPRetryWaitMin c' = HTTPRetryWaitMin c"
  unfolding default_HTTPRetryWaitMax_def Let_def
  by (auto split: if_splits sum.splits)

lemma default_HTTPRetryWaitMin_keeps:
  "default_HTTPRetryWaitMin w c = Inr c' \<Longrightarrow>
   StateTimeout c' = StateTimeout c \<and> SnapshotTimeout c' = SnapshotTimeout c \<and>
   TransferTimeout c' = TransferTimeout c \<and>
   WaitSnapshotTransfer c' = WaitSnapshotTransfer c \<and>
   HTTPRetryMax c' = HTTPRetryMax c \<and> HTTPRetryWaitMax c' = HTTPRetryWaitMax c"
  unfolding default_HTTPRetryWaitMin_def Let_def
  by (auto split: if_splits sum.splits)

lemma default_names_keeps:
  "default_names w c = Inr c' \<Longrightarrow>
   StateTimeout c' = StateTimeout c \<and> SnapshotTimeout c' = SnapshotTimeout c \<and>
   TransferTimeout c' = TransferTimeout c \<and>
   WaitSnapshotTransfer c' = WaitSnapshotTransfer c \<and>
   HTTPRetryMax c' = HTTPRetryMax c \<and> HTTPRetryWaitMax c' = HTTPRetryWaitMax c \<and>
   HTTPRetryWaitMin c' = HTTPRetryWaitMin c"
  unfolding default_names_def
  by (auto split: if_splits sum.splits)

lemma default_timeouts_fields:
  "StateTimeout (default_timeouts c) = (if StateTimeout c = 0 then 6 * Minute else StateTimeout c) \<and>
   SnapshotTimeout (default_timeouts c) =
     (if SnapshotTimeout c = 0 then 60 * Minute else SnapshotTimeout c) \<and>
   TransferTimeout (default_timeouts c) =
     (if TransferTimeout c = 0 then 30 * Minute else TransferTimeout c) \<and>
   WaitSnapshotTransfer (default_timeouts c) =
     (if WaitSnapshotTransfer c = None then Some True else WaitSnapshotTransfer c) \<and>
   HTTPRetryMax (default_timeouts c) = HTTPRetryMax c \<and>
   HTTPRetryWaitMax (default_timeouts c) = HTTPRetryWaitMax c \<and>
   HTTPRetryWaitMin (default_timeouts c) = HTTPRetryWaitMin c"
  unfolding default_timeouts_def Let_def by simp

lemma Prepare_validate_keeps:
  "StateTimeout (fst (Prepare_validate w c)) = StateTimeout c \<and>
   SnapshotTimeout (fst (Prepare_validate w c)) = SnapshotTimeout c \<and>
   TransferTimeout (fst (Prepare_validate w c)) = TransferTimeout c \<and>
   WaitSnapshotTransfer (fst (Prepare_validate w c)) = WaitSnapshotTransfer c \<and>
   HTTPRetryMax (fst (Prepare_validate w c)) = HTTPRetryMax c \<and>
   HTTPRetryWaitMax (fst (Prepare_validate w c)) = HTTPRetryWaitMax c \<and>
   HTTPRetryWaitMin (fst (Prepare_validate w c)) = HTTPRetryWaitMin c"
  unfolding Prepare_validate_def Let_def
  by (simp add: case_prod_unfold)

lemma Prepare_defaults_fields:
  assumes "Prepare_defaults w c = Inr (c1, warns)"
  shows "StateTimeout c1 = (if StateTimeout c = 0 then 6 * Minute else StateTimeout c) \<and>
   SnapshotTimeout c1 = (if SnapshotTimeout c = 0 then 60 * Minute else SnapshotTimeout c) \<and>
   TransferTimeout c1 = (if TransferTimeout c = 0 then 30 * Minute else TransferTimeout c) \<and>
   WaitSnapshotTransfer c1 =
     (if WaitSnapshotTransfer c = None then Some True else WaitSnapshotTransfer c) \<and>
   (HTTPRetryMax c = None \<and> Getenv w ''DIGITALOCEAN_HTTP_RETRY_MAX'' = '''' \<longrightarrow>
      HTTPRetryMax c1 = Some 5) \<and>
   (HTTPRetryWaitMax c = None \<and> Getenv w ''DIGITALOCEAN_HTTP_RETRY_WAIT_MAX'' = '''' \<longrightarrow>
      HTTPRetryWaitMax c1 = Some (F64 30)) \<and>
   (HTTPRetryWaitMin c = None \<and> Getenv w ''DIGITALOCEAN_HTTP_RETRY_WAIT_MIN'' = '''' \<longrightarrow>
      HTTPRetryWaitMin c1 = Some (F64 1))"
proof -
  let ?c2 = "default_APIURL w (fst (default_APIToken w c))"
  from Prepare_defaults_Inr [OF assms] obtain c3 c4 c5 c6 where
    s3: "default_HTTPRetryMax w ?c2 = Inr c3" and
    s4: "default_HTTPRetryWaitMax w c3 = Inr c4" and
    s5: "default_HTTPRetryWaitMin w c4 = Inr c5" and
    s6: "default_names w c5 = Inr c6" and
    c1: "c1 = default_timeouts c6"
    by blast
  note k2 = default_APIURL_keeps [of w "fst (default_APIToken w c)"] default_APIToken_keeps [of w c]
  note k3 = default_HTTPRetryMax_keeps [OF s3] default_HTTPRetryMax_Inr [OF s3]
  note k4 = default_HTTPRetryWaitMax_keeps [OF s4] default_HTTPRetryWaitMax_Inr [OF s4]
  note k5 = default_HTTPRetryWaitMin_keeps [OF s5] default_HTTPRetryWaitMin_Inr [OF s5]
  note k6 = default_names_keeps [OF s6]
  note k7 = default_timeouts_fields [of c6]
  have t: "StateTimeout c6 = StateTimeout c \<and> SnapshotTimeout c6 = SnapshotTimeout c \<and>
      TransferTimeout c6 = TransferTimeout c \<and> WaitSnapshotTransfer c6 = WaitSnapshotTransfer c"
    using k2 k3(1) k4(1) k5(1) k6 by simp
  have m: "HTTPRetryMax c = None \<and> Getenv w ''DIGITALOCEAN_HTTP_RETRY_MAX'' = '''' \<longrightarrow>
      HTTPRetryMax c6 = Some 5"
    using k2 k3(2) k4(1) k5(1) k6 by simp
  have x: "HTTPRetryWaitMax c = None \<and> Getenv w ''DIGITALOCEAN_HTTP_RETRY_WAIT_MAX'' = '''' \<longrightarrow>
      HTTPRetryWaitMax c6 = Some (F64 30)"
    using k2 k3(1) k4(2) k5(1) k6 by simp
  have n: "HTTPRetryWaitMin c = None \<and> Getenv w ''DIGITALOCEAN_HTTP_RETRY_WAIT_MIN'' = '''' \<longrightarrow>
      HTTPRetryWaitMin c6 = Some (F64 1)"
    using k2 k3(1) k4(1) k5(2) k6 by simp
  from t m x n k7 show ?thesis
    unfolding c1 by simp
qed

lemma Config_Prepare_reached:
  assumes "\<not> aborts_before_validation w c"
  shows "\<exists>c1 warns. Prepare_defaults w c = Inr (c1, warns) \<and>
     cfg (Config_Prepare w flt c) = fst (Prepare_validate w c1)"
proof -
  from assms obtain c1 warns where d: "Prepare_defaults w c = Inr (c1, warns)"
    by (cases "Prepare_defaults w c") (auto simp: aborts_before_validation_def)
  then have "cfg (Config_Prepare w flt c) = fst (Prepare_validate w c1)"
    by (simp add: Config_Prepare_def Let_def case_prod_unfold)
  with d show ?thesis by blast
qed

lemma Run_client_opts:
  "EvGodoNew opts \<in> set (events (Run w c)) \<Longrightarrow> client_options w c = Inr opts"
  by (auto simp: Run_def run_pipeline_def stop_def Let_def
      split: sum.splits option.splits if_splits)

lemma client_options_retry:
  "client_options w c = Inr opts \<Longrightarrow>
     \<exists>n. HTTPRetryMax c = Some n \<and>
       ((\<exists>rc. WithRetryAndBackoffs rc \<in> set opts) \<longleftrightarrow> 0 < n) \<and>
       (0 < n \<longrightarrow>
          WithRetryAndBackoffs
            \<lparr>RetryMax = n, RetryWaitMin = HTTPRetryWaitMin c,
             RetryWaitMax = HTTPRetryWaitMax c\<rparr> \<in> set opts)"
  unfolding client_options_def Let_def
  by (cases "APIURL c = ''''"; cases "url_Parse w (APIURL c)"; cases "HTTPRetryMax c")
     (auto split: if_splits)

lemma duration_values:
  "sint (6 * Minute) = 360000000000 \<and> sint (60 * Minute) = 3600000000000 \<and>
   sint (30 * Minute) = 1800000000000"
  by (simp add: Minute_def Second_def)

text \<open>
  Claim C3, as stated, fails: with \<open>DIGITALOCEAN_HTTP_RETRY_MAX\<close> set to 3 in the environment,
  a configuration that leaves \<open>http_retry_max\<close> unset is accepted by \<open>Config.Prepare\<close>
  and ends with \<open>http_retry_max\<close> = 3, not 5.
\<close>

theorem Prepare_retry_env_counterexample:
  "HTTPRetryMax template_config = None \<and>
   ret (Config_Prepare retry_env_world {} template_config) = PReturn [] None \<and>
   HTTPRetryMax (cfg (Config_Prepare retry_env_world {} template_config)) = Some 3"
  by (simp add: prepare_eval)

text \<open>
  Claim C3, amended. When \<open>Config.Prepare\<close> reaches its validations, each field of the retry
  policy that the configuration leaves unset, and whose environment variable
  (\<open>DIGITALOCEAN_HTTP_RETRY_MAX\<close>, \<open>DIGITALOCEAN_HTTP_RETRY_WAIT_MIN\<close>,
  \<open>DIGITALOCEAN_HTTP_RETRY_WAIT_MAX\<close>) is unset or empty, gets its default: 5, 1.0 and 30.0.
  And \<open>Builder.Run\<close> passes \<open>WithRetryAndBackoffs\<close>, carrying the configured maximum
  and waits, to \<open>godo.New\<close> exactly when \<open>http_retry_max\<close> is greater than 0.
\<close>

theorem Prepare_retry_defaults:
  "(\<not> aborts_before_validation w c \<and> HTTPRetryMax c = None \<and>
      Getenv w ''DIGITALOCEAN_HTTP_RETRY_MAX'' = '''' \<longrightarrow>
      HTTPRetryMax (cfg (Config_Prepare w flt c)) = Some 5) \<and>
   (\<not> aborts_before_validation w c \<and> HTTPRetryWaitMin c = None \<and>
      Getenv w ''DIGITALOCEAN_HTTP_RETRY_WAIT_MIN'' = '''' \<longrightarrow>
      HTTPRetryWaitMin (cfg (Config_Prepare w flt c)) = Some (F64 1)) \<and>
   (\<not> aborts_before_validation w c \<and> HTTPRetryWaitMax c = None \<and>
      Getenv w ''DIGITALOCEAN_HTTP_RETRY_WAIT_MAX'' = '''' \<longrightarrow>
      HTTPRetryWaitMax (cfg (Config_Prepare w flt c)) = Some (F64 30)) \<and>
   (\<forall>opts. EvGodoNew opts \<in> set (events (Run rw c')) \<longrightarrow>
      (\<exists>n. HTTPRetryMax c' = Some n \<and>
         ((\<exists>rc. WithRetryAndBackoffs rc \<in> set opts) \<longleftrightarrow> 0 < n) \<and>
         (0 < n \<longrightarrow>
            WithRetryAndBackoffs
              \<lparr>RetryMax = n, RetryWaitMin = HTTPRetryWaitMin c',
               RetryWaitMax = HTTPRetryWaitMax c'\<rparr> \<in> set opts)))"
proof -
  have prep: "HTTPRetryMax (cfg (Config_Prepare w flt c)) = HTTPRetryMax c1 \<and>
      HTTPRetryWaitMin (cfg (Config_Prepare w flt c)) = HTTPRetryWaitMin c1 \<and>
      HTTPRetryWaitMax (cfg (Config_Prepare w flt c)) = HTTPRetryWaitMax c1"
    if "Prepare_defaults w c = Inr (c1, warns)"
      and "cfg (Config_Prepare w flt c) = fst (Prepare_validate w c1)" for c1 warns
    using that Prepare_validate_keeps [of w c1] by simp
  have a: "HTTPRetryMax (cfg (Config_Prepare w flt c)) = Some 5"
    if "\<not> aborts_before_validation w c \<and> HTTPRetryMax c = None \<and>
      Getenv w ''DIGITALOCEAN_HTTP_RETRY_MAX'' = ''''"
  proof -
    from that Config_Prepare_reached [of w c flt] obtain c1 warns where
      d: "Prepare_defaults w c = Inr (c1, warns)" and
      v: "cfg (Config_Prepare w flt c) = fst (Prepare_validate w c1)"
      by blast
    from Prepare_defaults_fields [OF d] that prep [OF d v] show ?thesis
      by simp
  qed
  have b: "HTTPRetryWaitMin (cfg (Config_Prepare w flt c)) = Some (F64 1)"
    if "\<not> aborts_before_validation w c \<and> HTTPRetryWaitMin c = None \<and>
      Getenv w ''DIGITALOCEAN_HTTP_RETRY_WAIT_MIN'' = ''''"
  proof -
    from that Config_Prepare_reached [of w c flt] obtain c1 warns where
      d: "Prepare_defaults w c = Inr (c1, warns)" and
      v: "cfg (Config_Prepare w flt c) = fst (Prepare_validate w c1)"
      by blast
    from Prepare_defaults_fields [OF d] that prep [OF d v] show ?thesis
      by simp
  qed
  have x: "HTTPRetryWaitMax (cfg (Config_Prepare w flt c)) = Some (F64 30)"
    if "\<not> aborts_before_validation w c \<and> HTTPRetryWaitMax c = None \<and>
      Getenv w ''DIGITALOCEAN_HTTP_RETRY_WAIT_MAX'' = ''''"
  proof -
    from that Config_Prepare_reached [of w c flt] obtain c1 warns where
      d: "Prepare_defaults w c = Inr (c1, warns)" and
      v: "cfg (Config_Prepare w flt c) = fst (Prepare_validate w c1)"
      by blast
    from Prepare_defaults_fields [OF d] that prep [OF d v] show ?thesis
      by simp
  qed
  have r: "\<exists>n. HTTPRetryMax c' = Some n \<and>
         ((\<exists>rc. WithRetryAndBackoffs rc \<in> set opts) \<longleftrightarrow> 0 < n) \<and>
         (0 < n \<longrightarrow>
            WithRetryAndBackoffs
              \<lparr>RetryMax = n, RetryWaitMin = HTTPRetryWaitMin c',
               RetryWaitMax = HTTPRetryWaitMax c'\<rparr> \<in> set opts)"
    if "EvGodoNew opts \<in> set (events (Run rw c'))" for opts
    using client_options_retry [OF Run_client_opts [OF that]] .
  from a b x r show ?thesis
    by blast
qed

text \<open>The amended C3 on the template configuration without environment variables, on a run with
  5 retries and on a run with 0 retries.\<close>

theorem Prepare_retry_defaults_witness:
  "HTTPRetryMax (cfg (Config_Prepare example_prepare_world {} template_config)) = Some 5 \<and>
   HTTPRetryWaitMin (cfg (Config_Prepare example_prepare_world {} template_config)) = Some (F64 1) \<and>
   HTTPRetryWaitMax (cfg (Config_Prepare example_prepare_world {} template_config)) = Some (F64 30) \<and>
   (\<exists>opts. EvGodoNew opts \<in> set (events (Run example_run_world example_config)) \<and>
      WithRetryAndBackoffs
        \<lparr>RetryMax = 5, RetryWaitMin = Some (F64 1), RetryWaitMax = Some (F64 30)\<rparr> \<in> set opts) \<and>
   (\<exists>opts. EvGodoNew opts \<in> set (events (Run example_run_world no_retry_config)) \<and>
      (\<forall>rc. WithRetryAndBackoffs rc \<notin> set opts))"
proof -
  note t1 = Prepare_retry_defaults [where w = example_prepare_world and c = template_config
      and flt = "{}" and rw = example_run_world and c' = example_config]
  note t2 = Prepare_retry_defaults [where w = example_prepare_world and c = template_config
      and flt = "{}" and rw = example_run_world and c' = no_retry_config]
  have h: "\<not> aborts_before_validation example_prepare_world template_config \<and>
      HTTPRetryMax template_config = None \<and> HTTPRetryWaitMin template_config = None \<and>
      HTTPRetryWaitMax template_config = None \<and>
      Getenv example_prepare_world ''DIGITALOCEAN_HTTP_RETRY_MAX'' = '''' \<and>
      Getenv example_prepare_world ''DIGITALOCEAN_HTTP_RETRY_WAIT_MIN'' = '''' \<and>
      Getenv example_prepare_world ''DIGITALOCEAN_HTTP_RETRY_WAIT_MAX'' = ''''"
    by (simp add: prepare_eval)
  from t1 h have p:
    "HTTPRetryMax (cfg (Config_Prepare example_prepare_world {} template_config)) = Some 5 \<and>
     HTTPRetryWaitMin (cfg (Config_Prepare example_prepare_world {} template_config)) = Some (F64 1) \<and>
     HTTPRetryWaitMax (cfg (Config_Prepare example_prepare_world {} template_config)) = Some (F64 30)"
    by blast
  have "\<exists>opts. EvGodoNew opts \<in> set (events (Run example_run_world example_config))"
    by (simp add: run_eval)
  then obtain opts where ev: "EvGodoNew opts \<in> set (events (Run example_run_world example_config))"
    by blast
  with t1 obtain n where n: "HTTPRetryMax example_config = Some n" and
    w: "0 < n \<longrightarrow> WithRetryAndBackoffs
          \<lparr>RetryMax = n, RetryWaitMin = HTTPRetryWaitMin example_config,
           RetryWaitMax = HTTPRetryWaitMax example_config\<rparr> \<in> set opts"
    by blast
  from n w have "WithRetryAndBackoffs
        \<lparr>RetryMax = 5, RetryWaitMin = Some (F64 1), RetryWaitMax = Some (F64 30)\<rparr> \<in> set opts"
    by (simp add: example_config_def)
  with ev have on: "\<exists>opts. EvGodoNew opts \<in> set (events (Run example_run_world example_config)) \<and>
      WithRetryAndBackoffs
        \<lparr>RetryMax = 5, RetryWaitMin = Some (F64 1), RetryWaitMax = Some (F64 30)\<rparr> \<in> set opts"
    by blast
  have "\<exists>opts. EvGodoNew opts \<in> set (events (Run example_run_world no_retry_config))"
    by (simp add: run_eval no_retry_config_def)
  then obtain opts0 where
    ev0: "EvGodoNew opts0 \<in> set (events (Run example_run_world no_retry_config))"
    by blast
  with t2 obtain m where m: "HTTPRetryMax no_retry_config = Some m" and
    iff: "(\<exists>rc. WithRetryAndBackoffs rc \<in> set opts0) \<longleftrightarrow> 0 < m"
    by blast
  from m iff have "\<forall>rc. WithRetryAndBackoffs rc \<notin> set opts0"
    by (simp add: no_retry_config_def example_config_def)
  with ev0 have off: "\<exists>opts. EvGodoNew opts \<in> set (events (Run example_run_world no_retry_config)) \<and>
      (\<forall>rc. WithRetryAndBackoffs rc \<notin> set opts)"
    by blast
  from p on off show ?thesis
    by blast
qed

text \<open>
  Claim C6. When \<open>Config.Prepare\<close> reaches its validations, a \<open>state_timeout\<close> left at
  zero becomes 6 minutes, a \<open>snapshot_timeout\<close> left at zero 60 minutes and a
  \<open>transfer_timeout\<close> left at zero 30 minutes; as nanoseconds in an \<open>int64\<close> these are
  360000000000, 3600000000000 and 1800000000000.
\<close>

theorem Prepare_timeout_defaults:
  "\<not> aborts_before_validation w c \<Longrightarrow>
   (StateTimeout c = 0 \<longrightarrow> StateTimeout (cfg (Config_Prepare w flt c)) = 6 * Minute) \<and>
   (SnapshotTimeout c = 0 \<longrightarrow> SnapshotTimeout (cfg (Config_Prepare w flt c)) = 60 * Minute) \<and>
   (TransferTimeout c = 0 \<longrightarrow> TransferTimeout (cfg (Config_Prepare w flt c)) = 30 * Minute) \<and>
   sint (6 * Minute) = 360000000000 \<and> sint (60 * Minute) = 3600000000000 \<and>
   sint (30 * Minute) = 1800000000000"
proof -
  assume "\<not> aborts_before_validation w c"
  with Config_Prepare_reached [of w c flt] obtain c1 warns where
    d: "Prepare_defaults w c = Inr (c1, warns)" and
    v: "cfg (Config_Prepare w flt c) = fst (Prepare_validate w c1)"
    by blast
  from Prepare_defaults_fields [OF d] Prepare_validate_keeps [of w c1] v duration_values
  show ?thesis
    by simp
qed

text \<open>C6 on the template configuration.\<close>

theorem Prepare_timeout_defaults_witness:
  "StateTimeout template_config = 0 \<and> SnapshotTimeout template_config = 0 \<and>
   TransferTimeout template_config = 0 \<and>
   StateTimeout (cfg (Config_Prepare example_prepare_world {} template_config)) = 6 * Minute \<and>
   SnapshotTimeout (cfg (Config_Prepare example_prepare_world {} template_config)) = 60 * Minute \<and>
   TransferTimeout (cfg (Config_Prepare example_prepare_world {} template_config)) = 30 * Minute"
proof -
  have h: "\<not> aborts_before_validation example_prepare_world template_config"
    by (simp add: prepare_eval)
  have z: "StateTimeout template_config = 0 \<and> SnapshotTimeout template_config = 0 \<and>
      TransferTimeout template_config = 0"
    by (simp add: template_config_def)
  from Prepare_timeout_defaults [OF h, of "{}"] z show ?thesis
    by blast
qed

text \<open>
  Claim C7. When \<open>Config.Prepare\<close> reaches its validations, a \<open>wait_snapshot_transfer\<close>
  left unset becomes true; and the last step of the list \<open>Builder.Run\<close> hands to the
  runner is the snapshot step whose \<open>waitForSnapshotTransfer\<close> is the configured value.
\<close>

theorem Prepare_wait_snapshot_transfer:
  "(\<not> aborts_before_validation w c \<and> WaitSnapshotTransfer c = None \<longrightarrow>
      WaitSnapshotTransfer (cfg (Config_Prepare w flt c)) = Some True) \<and>
   (\<forall>steps. EvRunnerRun steps \<in> set (events (Run rw c')) \<longrightarrow>
      (\<exists>wait. WaitSnapshotTransfer c' = Some wait \<and>
         last steps = stepSnapshot (SnapshotTimeout c') (TransferTimeout c') wait \<and>
         waitForSnapshotTransfer (last steps) = wait))"
proof -
  have a: "WaitSnapshotTransfer (cfg (Config_Prepare w flt c)) = Some True"
    if "\<not> aborts_before_validation w c \<and> WaitSnapshotTransfer c = None"
  proof -
    from that Config_Prepare_reached [of w c flt] obtain c1 warns where
      d: "Prepare_defaults w c = Inr (c1, warns)" and
      v: "cfg (Config_Prepare w flt c) = fst (Prepare_validate w c1)"
      by blast
    from Prepare_defaults_fields [OF d] Prepare_validate_keeps [of w c1] v that show ?thesis
      by simp
  qed
  have b: "\<exists>wait. WaitSnapshotTransfer c' = Some wait \<and>
         last steps = stepSnapshot (SnapshotTimeout c') (TransferTimeout c') wait \<and>
         waitForSnapshotTransfer (last steps) = wait"
    if "EvRunnerRun steps \<in> set (events (Run rw c'))" for steps
    using build_steps_Some [OF Run_runner_steps [OF that]] by auto
  from a b show ?thesis
    by blast
qed

text \<open>C7 on the template configuration, and on a run of the configuration \<open>Prepare\<close> leaves.\<close>

theorem Prepare_wait_snapshot_transfer_witness:
  "WaitSnapshotTransfer template_config = None \<and>
   WaitSnapshotTransfer (cfg (Config_Prepare example_prepare_world {} template_config)) = Some True \<and>
   (\<exists>steps. EvRunnerRun steps \<in> set (events (Run example_run_world
        (cfg (Config_Prepare example_prepare_world {} template_config)))) \<and>
      waitForSnapshotTransfer (last steps) = True)"
proof -
  let ?c = "cfg (Config_Prepare example_prepare_world {} template_config)"
  note t = Prepare_wait_snapshot_transfer [where w = example_prepare_world and c = template_config
      and flt = "{}" and rw = example_run_world and c' = ?c]
  have h: "\<not> aborts_before_validation example_prepare_world template_config \<and>
      WaitSnapshotTransfer template_config = None"
    by (simp add: prepare_eval)
  with t have d: "WaitSnapshotTransfer ?c = Some True"
    by blast
  have "\<exists>steps. EvRunnerRun steps \<in> set (events (Run example_run_world ?c))"
    by (simp add: prepare_eval run_eval)
  then obtain steps where ev: "EvRunnerRun steps \<in> set (events (Run example_run_world ?c))"
    by blast
  with t obtain wait where "WaitSnapshotTransfer ?c = Some wait"
    and "waitForSnapshotTransfer (last steps) = wait"
    by blast
  with d have "waitForSnapshotTransfer (last steps) = True"
    by simp
  with ev h d show ?thesis
    by blast
qed

text \<open>
  Claim C9. In a configuration that \<open>Builder.Prepare\<close> accepts (it returns no error), a
  non-zero \<open>ssh_key_id\<close> comes with a non-empty \<open>ssh_private_key_file\<close>, and so the
  temporary key pair is generated exactly when \<open>skip_keygen\<close> is false and
  \<open>ssh_key_id\<close> is 0.
\<close>

theorem Builder_Prepare_accepted_key:
  "ret (Builder_Prepare w flt c) = PReturn warns None \<Longrightarrow>
   (SSHKeyID (cfg (Builder_Prepare w flt c)) \<noteq> 0 \<longrightarrow>
      SSHPrivateKeyFile (Comm (cfg (Builder_Prepare w flt c))) \<noteq> '''') \<and>
   (genTempKeyPair (cfg (Builder_Prepare w flt c)) \<longleftrightarrow>
      (\<not> SkipKeygen (cfg (Builder_Prepare w flt c)) \<and>
       SSHKeyID (cfg (Builder_Prepare w flt c)) = 0))"
proof -
  assume acc: "ret (Builder_Prepare w flt c) = PReturn warns None"
  let ?r = "Config_Prepare w flt c"
  have c: "cfg (Builder_Prepare w flt c) = cfg ?r"
    by (simp add: Builder_Prepare_def Let_def split: prepare_ret.splits)
  from acc have "\<not> (SSHKeyID (cfg ?r) \<noteq> 0 \<and> SSHPrivateKeyFile (Comm (cfg ?r)) = '''')"
    by (auto simp: Builder_Prepare_def Let_def split: prepare_ret.splits if_splits)
  with c show ?thesis
    by (auto simp: genTempKeyPair_def)
qed

text \<open>C9 on an accepted configuration with an existing key and its file, and on one without a key.\<close>

theorem Builder_Prepare_accepted_key_witness:
  "ret (Builder_Prepare example_prepare_world {} keyed_template_config) = PReturn [] None \<and>
   SSHKeyID (cfg (Builder_Prepare example_prepare_world {} keyed_template_config)) = 7 \<and>
   SSHPrivateKeyFile (Comm (cfg (Builder_Prepare example_prepare_world {} keyed_template_config)))
     \<noteq> '''' \<and>
   \<not> genTempKeyPair (cfg (Builder_Prepare example_prepare_world {} keyed_template_config)) \<and>
   ret (Builder_Prepare example_prepare_world {} template_config) = PReturn [] None \<and>
   genTempKeyPair (cfg (Builder_Prepare example_prepare_world {} template_config))"
proof -
  have a1: "ret (Builder_Prepare example_prepare_world {} keyed_template_config) = PReturn [] None"
    by (simp add: prepare_eval)
  have k1: "SSHKeyID (cfg (Builder_Prepare example_prepare_world {} keyed_template_config)) = 7"
    by (simp add: prepare_eval)
  have a2: "ret (Builder_Prepare example_prepare_world {} template_config) = PReturn [] None"
    by (simp add: prepare_eval)
  have k2: "SSHKeyID (cfg (Builder_Prepare example_prepare_world {} template_config)) = 0 \<and>
      \<not> SkipKeygen (cfg (Builder_Prepare example_prepare_world {} template_config))"
    by (simp add: prepare_eval)
  from Builder_Prepare_accepted_key [OF a1] k1
  have "SSHPrivateKeyFile (Comm (cfg (Builder_Prepare example_prepare_world {} keyed_template_config)))
     \<noteq> '''' \<and>
     \<not> genTempKeyPair (cfg (Builder_Prepare example_prepare_world {} keyed_template_config))"
    by simp
  moreover from Builder_Prepare_accepted_key [OF a2] k2
  have "genTempKeyPair (cfg (Builder_Prepare example_prepare_world {} template_config))"
    by simp
  ultimately show ?thesis
    using a1 k1 a2 by blast
qed

text \<open>
  Claim C10. \<open>Config.Prepare\<close> leaves the secret filter as it found it whenever it returns
  an error (or panics), in particular when validation errors were accumulated; when it
  returns no error, the filter is the old one with the API token added.
\<close>

theorem Prepare_secret_filter:
  "(\<forall>warns err. ret (Config_Prepare w flt c) = PReturn warns (Some err) \<longrightarrow>
      secrets (Config_Prepare w flt c) = flt) \<and>
   (\<forall>err. ret (Config_Prepare w flt c) = PPanic err \<longrightarrow>
      secrets (Config_Prepare w flt c) = flt) \<and>
   (\<forall>warns. ret (Config_Prepare w flt c) = PReturn warns None \<longrightarrow>
      secrets (Config_Prepare w flt c) = insert (APIToken (cfg (Config_Prepare w flt c))) flt) \<and>
   (\<forall>c1 warns es. Prepare_defaults w c = Inr (c1, warns) \<and>
      snd (Prepare_validate w c1) = Some es \<and> es \<noteq> [] \<longrightarrow>
      ret (Config_Prepare w flt c) = PReturn warns (Some (MultiError es)) \<and>
      secrets (Config_Prepare w flt c) = flt)"
  by (auto simp: Config_Prepare_def LogSecretFilter_Set_def Let_def case_prod_unfold
      split: sum.splits prepare_stop.splits if_splits)

text \<open>C10 on an accepted configuration and on one rejected for its missing region.\<close>

theorem Prepare_secret_filter_witness:
  "ret (Config_Prepare example_prepare_world {''other''} template_config) = PReturn [] None \<and>
   secrets (Config_Prepare example_prepare_world {''other''} template_config) =
     {''dop_v1_token'', ''other''} \<and>
   ret (Config_Prepare example_prepare_world {''other''} no_region_template_config) =
     PReturn [] (Some (MultiError [Err ''region is required''])) \<and>
   secrets (Config_Prepare example_prepare_world {''other''} no_region_template_config) =
     {''other''}"
proof -
  note ok = Prepare_secret_filter [of example_prepare_world "{''other''}" template_config]
  note bad = Prepare_secret_filter [of example_prepare_world "{''other''}" no_region_template_config]
  have r1: "ret (Config_Prepare example_prepare_world {''other''} template_config) = PReturn [] None"
    by (simp add: prepare_eval)
  have tok: "APIToken (cfg (Config_Prepare example_prepare_world {''other''} template_config)) =
      ''dop_v1_token''"
    by (simp add: prepare_eval)
  from ok r1 have "secrets (Config_Prepare example_prepare_world {''other''} template_config) =
      insert (APIToken (cfg (Config_Prepare example_prepare_world {''other''} template_config)))
        {''other''}"
    by blast
  with tok have s1: "secrets (Config_Prepare example_prepare_world {''other''} template_config) =
     {''dop_v1_token'', ''other''}"
    by simp
  have r2: "ret (Config_Prepare example_prepare_world {''other''} no_region_template_config) =
     PReturn [] (Some (MultiError [Err ''region is required'']))"
    by (simp add: prepare_eval)
  with bad have s2:
    "secrets (Config_Prepare example_prepare_world {''other''} no_region_template_config) =
     {''other''}"
    by blast
  from r1 s1 r2 s2 show ?thesis
    by blast
qed

end
